theory Spec2Isabelle
  imports Main "HOL-Library.Sublist" "HOL-Library.Multiset"
begin

section \<open>Python values handled by the evaluation pipeline\<close>

text \<open>
  The pipeline of \<^verbatim>\<open>api_evaluator.py\<close> passes around whatever \<^verbatim>\<open>json.loads\<close> and
  \<^verbatim>\<open>response.json()\<close> return: dictionaries, lists, strings, integers, booleans and
  \<^verbatim>\<open>None\<close>. They are modelled by one datatype. A dictionary keeps its insertion order
  (an association list), a string is a list of code points below 256, and \<^verbatim>\<open>JNull\<close> is
  Python's \<^verbatim>\<open>None\<close>. Floating-point numbers are outside this embedding.
\<close>

datatype json =
    JNull
  | JBool bool
  | JInt int
  | JStr string
  | JArr "json list"
  | JObj "(string \<times> json) list"

text \<open>
  Exceptions are values. \<^verbatim>\<open>Unmodelled\<close> marks the two places where Python computes
  something this embedding does not follow (ordering non-numeric sort keys, and the
  \<^verbatim>\<open>repr\<close> of a container inside an f-string); no theorem below draws a conclusion
  from it.
\<close>

datatype py_error =
    KeyError
  | IndexError
  | TypeError
  | AttributeError
  | ValueError
  | JSONDecodeError
  | RequestException
  | UnboundLocalError
  | Unmodelled

text \<open>Truth value of an object, as \<^verbatim>\<open>if evaluation:\<close> and \<^verbatim>\<open>if not cv_text:\<close> test it.\<close>

fun truthy :: "json \<Rightarrow> bool" where
  "truthy JNull = False"
| "truthy (JBool b) = b"
| "truthy (JInt n) = (n \<noteq> 0)"
| "truthy (JStr s) = (s \<noteq> [])"
| "truthy (JArr xs) = (xs \<noteq> [])"
| "truthy (JObj kvs) = (kvs \<noteq> [])"

text \<open>\<^verbatim>\<open>obj[key]\<close> with a string key.\<close>

fun getitem :: "json \<Rightarrow> string \<Rightarrow> py_error + json" where
  "getitem (JObj kvs) k = (case map_of kvs k of None \<Rightarrow> Inl KeyError | Some v \<Rightarrow> Inr v)"
| "getitem _ k = Inl TypeError"

text \<open>\<^verbatim>\<open>obj[0]\<close>: the first element of a list or string; no dictionary read from JSON has
  the key \<^verbatim>\<open>0\<close>.\<close>

fun getitem0 :: "json \<Rightarrow> py_error + json" where
  "getitem0 (JArr []) = Inl IndexError"
| "getitem0 (JArr (x # xs)) = Inr x"
| "getitem0 (JStr []) = Inl IndexError"
| "getitem0 (JStr (c # cs)) = Inr (JStr [c])"
| "getitem0 (JObj kvs) = Inl KeyError"
| "getitem0 _ = Inl TypeError"

text \<open>\<^verbatim>\<open>obj[:100]\<close>. A dictionary refuses the slice (with \<^verbatim>\<open>TypeError\<close>, or
  \<^verbatim>\<open>KeyError\<close> from Python 3.12 on; no handler here tells the two apart).\<close>

fun slice100 :: "json \<Rightarrow> py_error + json" where
  "slice100 (JStr s) = Inr (JStr (take 100 s))"
| "slice100 (JArr xs) = Inr (JArr (take 100 xs))"
| "slice100 _ = Inl TypeError"

text \<open>\<^verbatim>\<open>dict.get(key)\<close> on a dictionary, and \<^verbatim>\<open>d[key] = value\<close>: an existing key keeps
  its place, a new one goes last.\<close>

fun dict_get :: "json \<Rightarrow> string \<Rightarrow> json option" where
  "dict_get (JObj kvs) k = map_of kvs k"
| "dict_get _ k = None"

fun assoc_set :: "(string \<times> json) list \<Rightarrow> string \<Rightarrow> json \<Rightarrow> (string \<times> json) list" where
  "assoc_set [] k v = [(k, v)]"
| "assoc_set ((k', v') # kvs) k v =
     (if k' = k then (k, v) # kvs else (k', v') # assoc_set kvs k v)"

fun setitem :: "json \<Rightarrow> string \<Rightarrow> json \<Rightarrow> py_error + json" where
  "setitem (JObj kvs) k v = Inr (JObj (assoc_set kvs k v))"
| "setitem _ k v = Inl TypeError"

subsection \<open>Formatting inside f-strings\<close>

definition digit_char :: "nat \<Rightarrow> char" where
  "digit_char d = ''0123456789'' ! d"

fun dec_nat :: "nat \<Rightarrow> string" where
  "dec_nat n = (if n < 10 then [digit_char n] else dec_nat (n div 10) @ [digit_char (n mod 10)])"

declare dec_nat.simps [simp del]

definition dec_int :: "int \<Rightarrow> string" where
  "dec_int i = (if i < 0 then ''-'' @ dec_nat (nat (- i)) else dec_nat (nat i))"

text \<open>\<^verbatim>\<open>str(v)\<close>, which is what \<^verbatim>\<open>f"{v}"\<close> inserts.\<close>

fun py_str :: "json \<Rightarrow> py_error + string" where
  "py_str (JStr s) = Inr s"
| "py_str (JInt n) = Inr (dec_int n)"
| "py_str (JBool b) = Inr (if b then ''True'' else ''False'')"
| "py_str JNull = Inr ''None''"
| "py_str _ = Inl Unmodelled"

subsection \<open>String methods\<close>

definition startswith :: "string \<Rightarrow> string \<Rightarrow> bool" where
  "startswith s p = (take (length p) s = p)"

definition endswith :: "string \<Rightarrow> string \<Rightarrow> bool" where
  "endswith s p = (length p \<le> length s \<and> drop (length s - length p) s = p)"

text \<open>The white space \<^verbatim>\<open>str.strip()\<close> removes, among the code points below 256.\<close>

definition py_isspace :: "char \<Rightarrow> bool" where
  "py_isspace c = (c \<in> {CHR 0x09, CHR 0x0A, CHR 0x0B, CHR 0x0C, CHR 0x0D,
                         CHR 0x1C, CHR 0x1D, CHR 0x1E, CHR 0x1F, CHR 0x20, CHR 0x85, CHR 0xA0})"

definition strip :: "string \<Rightarrow> string" where
  "strip s = rev (dropWhile py_isspace (rev (dropWhile py_isspace s)))"

text \<open>\<^verbatim>\<open>s.replace(a, b)\<close> for single characters.\<close>

definition replace_char :: "char \<Rightarrow> char \<Rightarrow> string \<Rightarrow> string" where
  "replace_char a b s = map (\<lambda>c. if c = a then b else c) s"

section \<open>The completion endpoint\<close>

text \<open>
  One request to the endpoint ends in one of three ways: \<^verbatim>\<open>requests.post\<close> or
  \<^verbatim>\<open>raise_for_status\<close> raises a \<^verbatim>\<open>RequestException\<close>; the body is not JSON and
  \<^verbatim>\<open>response.json()\<close> raises a \<^verbatim>\<open>JSONDecodeError\<close>; or the body decodes to a value.
  The endpoint is a sequence of such outcomes, one per request, and the state of the
  network is that sequence together with the log of the requests sent so far.
\<close>

datatype http_outcome =
    RequestFailed
  | BodyNotJSON
  | Body json

record request =
  url :: string
  authorization :: string
  model :: string
  system_content :: string
  user_content :: string
  temperature_tenths :: nat
  max_tokens :: nat
  timeout_seconds :: nat

record net =
  endpoint :: "nat \<Rightarrow> http_outcome"
  sent :: "request list"

definition post :: "request \<Rightarrow> net \<Rightarrow> http_outcome \<times> net" where
  "post req n = (endpoint n (length (sent n)), n\<lparr>sent := sent n @ [req]\<rparr>)"

text \<open>\<^verbatim>\<open>result['choices'][0]['message']['content']\<close>\<close>

definition message_content :: "json \<Rightarrow> py_error + json" where
  "message_content result =
     (case getitem result ''choices'' of Inl e \<Rightarrow> Inl e
      | Inr choices \<Rightarrow>
     (case getitem0 choices of Inl e \<Rightarrow> Inl e
      | Inr choice \<Rightarrow>
     (case getitem choice ''message'' of Inl e \<Rightarrow> Inl e
      | Inr message \<Rightarrow> getitem message ''content'')))"

section \<open>CVEvaluator\<close>

record cv_evaluator =
  api_key :: string
  api_url :: string
  job_description :: "string option"

definition CVEvaluator_init :: "string \<Rightarrow> string option \<Rightarrow> cv_evaluator" where
  "CVEvaluator_init key jd =
     \<lparr>api_key = key, api_url = ''https://api.deepseek.com/v1/chat/completions'',
      job_description = jd\<rparr>"

subsection \<open>call_deepseek_api\<close>

text \<open>Lines 124 to 130: the clean-up of the response content.\<close>

definition clean_content :: "string \<Rightarrow> string" where
  "clean_content content0 =
     (let content1 = (if startswith content0 ''```json'' then drop 7 content0 else content0);
          content2 = (if startswith content1 ''```'' then drop 3 content1 else content1);
          content3 = (if endswith content2 ''```'' then take (length content2 - 3) content2
                      else content2)
      in strip content3)"

definition evaluation_request :: "cv_evaluator \<Rightarrow> string \<Rightarrow> request" where
  "evaluation_request self prompt =
     \<lparr>url = api_url self,
      authorization = ''Bearer '' @ api_key self,
      model = ''deepseek-chat'',
      system_content = ''You are an expert HR analyst. You always respond with valid JSON only.'',
      user_content = prompt,
      temperature_tenths = 3,
      max_tokens = 2000,
      timeout_seconds = 60\<rparr>"

text \<open>
  The retry loop \<^verbatim>\<open>for attempt in range(max_retries)\<close>. \<^verbatim>\<open>json.loads\<close> is the
  library's decoder, a parameter (\<^verbatim>\<open>None\<close> when it raises \<^verbatim>\<open>JSONDecodeError\<close>). The
  variable \<^verbatim>\<open>content\<close> lives across the attempts and is unbound until a body has
  yielded one; the handler of the decode error prints it on the last attempt. An
  exception other than the two handled ones leaves the function at once. After the
  loop the function returns \<^verbatim>\<open>None\<close>.
\<close>

function retry_loop ::
  "(string \<Rightarrow> json option) \<Rightarrow> request \<Rightarrow> int \<Rightarrow> int \<Rightarrow> string option \<Rightarrow> net
     \<Rightarrow> (py_error + json) \<times> net" where
  "retry_loop loads req max_retries attempt content n =
     (if attempt < max_retries then
        (case post req n of (outcome, n1) \<Rightarrow>
          (case outcome of
             RequestFailed \<Rightarrow>
               if attempt = max_retries - 1 then (Inl RequestException, n1)
               else retry_loop loads req max_retries (attempt + 1) content n1
           | BodyNotJSON \<Rightarrow>
               if attempt = max_retries - 1
               then (case content of None \<Rightarrow> (Inl UnboundLocalError, n1)
                                   | Some c \<Rightarrow> (Inl JSONDecodeError, n1))
               else retry_loop loads req max_retries (attempt + 1) content n1
           | Body result \<Rightarrow>
               (case message_content result of
                  Inl e \<Rightarrow> (Inl e, n1)
                | Inr (JStr content0) \<Rightarrow>
                    (let cleaned = clean_content content0 in
                     case loads cleaned of
                       Some evaluation \<Rightarrow> (Inr evaluation, n1)
                     | None \<Rightarrow>
                         if attempt = max_retries - 1 then (Inl JSONDecodeError, n1)
                         else retry_loop loads req max_retries (attempt + 1) (Some cleaned) n1)
                | Inr other \<Rightarrow> (Inl AttributeError, n1))))
      else (Inr JNull, n))"
  by pat_completeness auto
termination
  by (relation "measure (\<lambda>(loads, req, max_retries, attempt, content, n). nat (max_retries - attempt))")
     auto

declare retry_loop.simps [simp del]

definition call_deepseek_api ::
  "(string \<Rightarrow> json option) \<Rightarrow> cv_evaluator \<Rightarrow> string \<Rightarrow> int \<Rightarrow> net \<Rightarrow> (py_error + json) \<times> net" where
  "call_deepseek_api loads self prompt max_retries n =
     retry_loop loads (evaluation_request self prompt) max_retries 0 None n"

subsection \<open>extract_text_from_pdf\<close>

text \<open>
  What lies outside the repository is a parameter: the decoder \<^verbatim>\<open>json.loads\<close>,
  \<^verbatim>\<open>Path(...).stem\<close>, the PDF files as PyPDF2 reads them (\<^verbatim>\<open>None\<close> for a file that
  cannot be opened or parsed, otherwise its pages, a page being \<^verbatim>\<open>None\<close> when
  \<^verbatim>\<open>extract_text\<close> raises), the text files, and the two readings of the clock.
\<close>

record env =
  json_loads :: "string \<Rightarrow> json option"
  path_stem :: "string \<Rightarrow> string"
  pdf_pages :: "string \<Rightarrow> string option list option"
  text_files :: "string \<Rightarrow> string option"
  report_date :: string
  timestamp :: string

definition extract_text_from_pdf :: "env \<Rightarrow> string \<Rightarrow> string option" where
  "extract_text_from_pdf world pdf_path =
     (case pdf_pages world pdf_path of
        None \<Rightarrow> None
      | Some pages \<Rightarrow> map_option concat (those pages))"

subsection \<open>create_evaluation_prompt\<close>

definition prompt_intro :: string where
  \<open>prompt_intro =
       ''You are an expert HR analyst evaluating candidate CVs for a specific role.\<newline>''
     @ ''\<newline>''
     @ ''**JOB DETAILS:**\<newline>''
     @ ''- Role: ''\<close>

definition task_section :: string where
  \<open>task_section =
       ''**YOUR TASK:**\<newline>''
     @ ''Evaluate this candidate against the role requirements and provide a structured assessment.\<newline>''
     @ ''\<newline>''\<close>

definition scoring_system :: string where
  \<open>scoring_system =
       ''**SCORING SYSTEM (Total: 100 points):**\<newline>''
     @ ''- Core Skills Match: 35 points (How well technical/functional skills align with role)\<newline>''
     @ ''- Experience Relevance: 25 points (Relevance of past work to this position)\<newline>''
     @ ''- Experience Level: 15 points (Years of experience and seniority level)\<newline>''
     @ ''- Education and Certifications: 5 points (Academic background and professional certifications)\<newline>''
     @ ''- Soft Skills and Competencies: 10 points (Leadership, communication, problem-solving)\<newline>''
     @ ''- Bonus Fit Indicators: 10 points (Cultural fit, additional value-adds, achievements)\<newline>''\<close>

definition leniency_instruction :: string where
  \<open>leniency_instruction =
       ''\<newline>''
     @ ''**IMPORTANT:** Be lenient in scoring. Most qualified candidates should score 65-85. Only truly exceptional candidates score 90+. Only severely mismatched candidates score below 50.\<newline>''\<close>

definition output_format_head :: string where
  \<open>output_format_head =
       ''\<newline>''
     @ ''**OUTPUT FORMAT (You MUST respond with valid JSON only):**\<newline>''
     @ ''{\<newline>''
     @ ''  "candidate_name": "''\<close>

definition output_format_tail :: string where
  \<open>output_format_tail =
       ''",\<newline>''
     @ ''  "match_score": <number>,\<newline>''
     @ ''  "rating_summary": "<exactly 50 words>",\<newline>''
     @ ''  "strengths": [\<newline>''
     @ ''    "<strength 1>",\<newline>''
     @ ''    "<strength 2>",\<newline>''
     @ ''    "<strength 3>",\<newline>''
     @ ''    "<strength 4>"\<newline>''
     @ ''  ],\<newline>''
     @ ''  "potential_gaps": [\<newline>''
     @ ''    "<gap 1>",\<newline>''
     @ ''    "<gap 2>"\<newline>''
     @ ''  ]\<newline>''
     @ ''}\<newline>''\<close>

definition rules_section :: string where
  \<open>rules_section =
       ''\<newline>''
     @ ''**RULES:**\<newline>''
     @ ''1. Respond ONLY with valid JSON. No markdown, no explanations, just JSON.\<newline>''
     @ ''2. Rating summary must be EXACTLY 50 words ('' @ [CHR 0xB1] @ ''3 words acceptable) explaining the scoring logic.\<newline>''
     @ ''3. Provide exactly 4 strengths and 2 potential gaps.\<newline>''
     @ ''4. Be specific and reference actual experience from the CV.\<newline>''
     @ ''5. Be lenient - focus on potential and transferable skills.\<newline>''
     @ ''6. Match score should reflect overall evaluation across all criteria.\<newline>''\<close>

definition create_evaluation_prompt ::
  "cv_evaluator \<Rightarrow> string \<Rightarrow> string \<Rightarrow> string \<Rightarrow> string \<Rightarrow> string \<Rightarrow> string" where
  "create_evaluation_prompt self cv_text candidate_name job_title company department =
     prompt_intro @ job_title @ ''\<newline>- Company: '' @ company
     @ ''\<newline>- Department: '' @ department @ ''\<newline>''
     @ (case job_description self of
          None \<Rightarrow> []
        | Some jd \<Rightarrow> if jd = [] then [] else ''- Job Description: '' @ jd)
     @ ''\<newline>\<newline>**CANDIDATE CV:**\<newline>'' @ cv_text @ ''\<newline>\<newline>''
     @ task_section @ scoring_system @ leniency_instruction
     @ output_format_head @ candidate_name @ output_format_tail @ rules_section"

subsection \<open>generate_overall_summary\<close>

definition summary_prompt_head :: string where
  \<open>summary_prompt_head =
       ''Based on the following candidate evaluations for the ''\<close>

definition summary_prompt_mid :: string where
  \<open>summary_prompt_mid =
       '' role, write a concise 80-word overall summary comparing all candidates and providing a final recommendation.\<newline>''
     @ ''\<newline>''
     @ ''CANDIDATES:\<newline>''\<close>

definition summary_prompt_tail :: string where
  \<open>summary_prompt_tail =
       ''\<newline>''
     @ ''\<newline>''
     @ ''Provide an 80-word summary that:\<newline>''
     @ ''1. Compares the candidates\<newline>''
     @ ''2. Highlights the top candidate and why\<newline>''
     @ ''3. Notes key differentiators\<newline>''
     @ ''4. Provides a clear recommendation\<newline>''
     @ ''\<newline>''
     @ ''Respond with ONLY the 80-word summary text, no JSON, no formatting.''\<close>

text \<open>\<^verbatim>\<open>f"{eval[key]}"\<close>\<close>

definition field_str :: "json \<Rightarrow> string \<Rightarrow> py_error + string" where
  "field_str e k = (case getitem e k of Inl x \<Rightarrow> Inl x | Inr v \<Rightarrow> py_str v)"

text \<open>One line of \<^verbatim>\<open>candidates_info\<close>; the fields are read from left to right.\<close>

definition candidate_line :: "json \<Rightarrow> py_error + string" where
  "candidate_line e =
     (case field_str e ''candidate_name'' of Inl x \<Rightarrow> Inl x
      | Inr name \<Rightarrow>
     (case field_str e ''match_score'' of Inl x \<Rightarrow> Inl x
      | Inr score \<Rightarrow>
     (case getitem e ''rating_summary'' of Inl x \<Rightarrow> Inl x
      | Inr rating \<Rightarrow>
     (case slice100 rating of Inl x \<Rightarrow> Inl x
      | Inr rating100 \<Rightarrow>
     (case py_str rating100 of Inl x \<Rightarrow> Inl x
      | Inr summary \<Rightarrow> Inr (''- '' @ name @ '': '' @ score @ ''/100 - '' @ summary))))))"

fun candidate_lines :: "json list \<Rightarrow> py_error + string list" where
  "candidate_lines [] = Inr []"
| "candidate_lines (e # es) =
     (case candidate_line e of Inl x \<Rightarrow> Inl x
      | Inr l \<Rightarrow> (case candidate_lines es of Inl x \<Rightarrow> Inl x | Inr ls \<Rightarrow> Inr (l # ls)))"

fun join_lines :: "string list \<Rightarrow> string" where
  "join_lines [] = []"
| "join_lines [l] = l"
| "join_lines (l # ls) = l @ ''\<newline>'' @ join_lines ls"

definition summary_prompt :: "string \<Rightarrow> string \<Rightarrow> string" where
  "summary_prompt job_title candidates_info =
     summary_prompt_head @ job_title @ summary_prompt_mid @ candidates_info @ summary_prompt_tail"

definition summary_request :: "cv_evaluator \<Rightarrow> string \<Rightarrow> request" where
  "summary_request self prompt =
     \<lparr>url = api_url self,
      authorization = ''Bearer '' @ api_key self,
      model = ''deepseek-chat'',
      system_content = ''You are an expert HR analyst providing clear, concise summaries.'',
      user_content = prompt,
      temperature_tenths = 4,
      max_tokens = 200,
      timeout_seconds = 60\<rparr>"

text \<open>The two deterministic sentences.\<close>

definition only_candidate_sentence :: "json \<Rightarrow> py_error + string" where
  "only_candidate_sentence candidate =
     (case field_str candidate ''candidate_name'' of Inl x \<Rightarrow> Inl x
      | Inr name \<Rightarrow>
     (case field_str candidate ''match_score'' of Inl x \<Rightarrow> Inl x
      | Inr score \<Rightarrow>
        Inr (name @ '' is the only candidate evaluated with a match score of '' @ score
             @ ''/100.'')))"

definition fallback_sentence :: "json \<Rightarrow> py_error + string" where
  "fallback_sentence top_candidate =
     (case field_str top_candidate ''candidate_name'' of Inl x \<Rightarrow> Inl x
      | Inr name \<Rightarrow>
     (case field_str top_candidate ''match_score'' of Inl x \<Rightarrow> Inl x
      | Inr score \<Rightarrow>
        Inr (name @ '' ranks highest with a score of '' @ score
             @ ''/100, demonstrating the strongest alignment with role requirements across all evaluation criteria.'')))"

text \<open>The body of the \<^verbatim>\<open>try\<close> of lines 197 to 202, once the request has been answered:
  the stripped content, or \<^verbatim>\<open>None\<close> when any step raises.\<close>

definition summary_of_outcome :: "http_outcome \<Rightarrow> string option" where
  "summary_of_outcome outcome =
     (case outcome of
        Body result \<Rightarrow>
          (case message_content result of
             Inr (JStr content) \<Rightarrow> Some (strip content)
           | _ \<Rightarrow> None)
      | _ \<Rightarrow> None)"

definition generate_overall_summary ::
  "cv_evaluator \<Rightarrow> json list \<Rightarrow> string \<Rightarrow> net \<Rightarrow> (py_error + string) \<times> net" where
  "generate_overall_summary self evaluations job_title n =
     (case evaluations of
        [] \<Rightarrow> (Inr ''No candidates were evaluated.'', n)
      | [candidate] \<Rightarrow> (only_candidate_sentence candidate, n)
      | top_candidate # others \<Rightarrow>
          (case candidate_lines evaluations of
             Inl x \<Rightarrow> (Inl x, n)
           | Inr ls \<Rightarrow>
               (case post (summary_request self (summary_prompt job_title (join_lines ls))) n of
                  (outcome, n1) \<Rightarrow>
                    (case summary_of_outcome outcome of
                       Some summary \<Rightarrow> (Inr summary, n1)
                     | None \<Rightarrow> (fallback_sentence top_candidate, n1)))))"

subsection \<open>evaluate_candidates\<close>

text \<open>
  \<^verbatim>\<open>evaluations.sort(key=lambda x: x['match_score'], reverse=True)\<close>. The keys are
  computed first, for every element; a missing key or an element that is no dictionary
  raises. With fewer than two elements nothing is compared. Integer keys (a Boolean
  counts as 0 or 1) are ordered by value, descending, and the sort is stable. Keys of
  any other kind are not followed here.
\<close>

fun sort_keys :: "json list \<Rightarrow> py_error + json list" where
  "sort_keys [] = Inr []"
| "sort_keys (x # xs) =
     (case getitem x ''match_score'' of Inl e \<Rightarrow> Inl e
      | Inr k \<Rightarrow> (case sort_keys xs of Inl e \<Rightarrow> Inl e | Inr ks \<Rightarrow> Inr (k # ks)))"

fun numeric_key :: "json \<Rightarrow> int option" where
  "numeric_key (JInt i) = Some i"
| "numeric_key (JBool b) = Some (if b then 1 else 0)"
| "numeric_key _ = None"

definition sort_by_match_score :: "json list \<Rightarrow> py_error + json list" where
  "sort_by_match_score evaluations =
     (case sort_keys evaluations of
        Inl e \<Rightarrow> Inl e
      | Inr keys \<Rightarrow>
          if length evaluations < 2 then Inr evaluations
          else (case those (map numeric_key keys) of
                  None \<Rightarrow> Inl Unmodelled
                | Some ks \<Rightarrow> Inr (map snd (sort_key (\<lambda>p. - fst p) (zip ks evaluations)))))"

text \<open>
  The loop over \<^verbatim>\<open>cv_files\<close>. A candidate whose text is \<^verbatim>\<open>None\<close> or empty is skipped
  before any prompt is built. The evaluation is appended before the line that prints
  its score, so an exception of that line (caught like the others) leaves it in the list.
\<close>

fun evaluate_loop ::
  "env \<Rightarrow> cv_evaluator \<Rightarrow> string list \<Rightarrow> string \<Rightarrow> string \<Rightarrow> string \<Rightarrow> json list \<Rightarrow> net
     \<Rightarrow> json list \<times> net" where
  "evaluate_loop world self [] job_title company department evaluations n = (evaluations, n)"
| "evaluate_loop world self (cv_file # rest) job_title company department evaluations n =
     (let candidate_name =
            replace_char (CHR ''-'') (CHR '' '')
              (replace_char (CHR ''_'') (CHR '' '') (path_stem world cv_file))
      in case extract_text_from_pdf world cv_file of
           None \<Rightarrow> evaluate_loop world self rest job_title company department evaluations n
         | Some cv_text \<Rightarrow>
             if cv_text = [] then
               evaluate_loop world self rest job_title company department evaluations n
             else
               (case call_deepseek_api (json_loads world) self
                       (create_evaluation_prompt self cv_text candidate_name job_title company
                          department) 3 n of
                  (Inl e, n1) \<Rightarrow>
                    evaluate_loop world self rest job_title company department evaluations n1
                | (Inr evaluation, n1) \<Rightarrow>
                    if truthy evaluation then
                      evaluate_loop world self rest job_title company department
                        (evaluations @ [evaluation]) n1
                    else
                      evaluate_loop world self rest job_title company department evaluations n1))"

definition assessment_method_text :: string where
  "assessment_method_text = ''This report provides an AI-assisted evaluation of candidates against the role requirements. It summarizes estimated role fit, highlights strengths and potential risks, and presents a structured match score to support HR and hiring manager decisions.''"

definition evaluate_candidates ::
  "env \<Rightarrow> cv_evaluator \<Rightarrow> string list \<Rightarrow> string \<Rightarrow> string \<Rightarrow> string \<Rightarrow> string \<Rightarrow> string \<Rightarrow> net
     \<Rightarrow> (py_error + json) \<times> net" where
  "evaluate_candidates world self cv_files job_title company department location work_mode n =
     (case evaluate_loop world self cv_files job_title company department [] n of
        (evaluations, n1) \<Rightarrow>
          (case sort_by_match_score evaluations of
             Inl e \<Rightarrow> (Inl e, n1)
           | Inr sorted_evaluations \<Rightarrow>
               (case generate_overall_summary self sorted_evaluations job_title n1 of
                  (Inl e, n2) \<Rightarrow> (Inl e, n2)
                | (Inr overall_summary, n2) \<Rightarrow>
                    (Inr (JObj
                       [(''report_header'', JObj
                          [(''role'', JStr job_title),
                           (''department'', JStr department),
                           (''company'', JStr company),
                           (''location'', JStr location),
                           (''work_mode'', JStr work_mode),
                           (''report_date'', JStr (report_date world)),
                           (''assessment_method'', JStr assessment_method_text)]),
                        (''candidates'', JArr sorted_evaluations),
                        (''overall_summary'', JStr overall_summary),
                        (''total_candidates'', JInt (int (length sorted_evaluations)))]),
                     n2))))"

subsection \<open>save_json_report\<close>

text \<open>The disk maps a file name to the JSON document last written under it; it is taken
  to be writable.\<close>

definition save_json_report ::
  "json \<Rightarrow> string \<Rightarrow> (string \<Rightarrow> json option) \<Rightarrow> string \<times> (string \<Rightarrow> json option)" where
  "save_json_report report_data output_file files =
     (output_file, files(output_file \<mapsto> report_data))"

section \<open>PDFReportGenerator.generate_pdf\<close>

text \<open>
  The typesetting is reportlab's and is a parameter: whether building the document and
  its front matter (lines 300 to 330), one candidate's section, the summary section or
  \<^verbatim>\<open>doc.build\<close> raises. The handler of lines 352 to 354 prints and raises again, so a
  failure of \<^verbatim>\<open>doc.build\<close> leaves the function as an exception like the others. A
  report that is no dictionary has no \<^verbatim>\<open>get\<close>. What \<^verbatim>\<open>generate_pdf\<close> does itself is the loop
  of lines 333 to 337, which writes \<^verbatim>\<open>candidate_number\<close> into each candidate before its
  section is built; the candidates are the objects of the report, so the report is
  changed.
\<close>

record renderer =
  front_matter_error :: "json \<Rightarrow> py_error option"
  section_error :: "json \<Rightarrow> py_error option"
  summary_section_error :: "json \<Rightarrow> py_error option"
  build_error :: "json \<Rightarrow> py_error option"

text \<open>What \<^verbatim>\<open>enumerate(candidates, 1)\<close> iterates over.\<close>

fun iterate :: "json \<Rightarrow> py_error + json list" where
  "iterate (JArr xs) = Inr xs"
| "iterate (JObj kvs) = Inr (map (\<lambda>kv. JStr (fst kv)) kvs)"
| "iterate (JStr s) = Inr (map (\<lambda>c. JStr [c]) s)"
| "iterate _ = Inl TypeError"

fun number_candidates :: "renderer \<Rightarrow> nat \<Rightarrow> json list \<Rightarrow> py_error + json list" where
  "number_candidates pdf idx [] = Inr []"
| "number_candidates pdf idx (candidate # rest) =
     (case setitem candidate ''candidate_number'' (JInt (int idx)) of
        Inl e \<Rightarrow> Inl e
      | Inr numbered \<Rightarrow>
          (case section_error pdf numbered of
             Some e \<Rightarrow> Inl e
           | None \<Rightarrow>
               (case number_candidates pdf (Suc idx) rest of
                  Inl e \<Rightarrow> Inl e
                | Inr rest' \<Rightarrow> Inr (numbered # rest'))))"

definition generate_pdf :: "renderer \<Rightarrow> json \<Rightarrow> string \<Rightarrow> py_error + (json \<times> string)" where
  "generate_pdf pdf report_data output_file =
     (case front_matter_error pdf report_data of
        Some e \<Rightarrow> Inl e
      | None \<Rightarrow>
          (case report_data of
             JObj entries \<Rightarrow>
               (case iterate (case map_of entries ''candidates'' of None \<Rightarrow> JArr [] | Some c \<Rightarrow> c) of
                  Inl e \<Rightarrow> Inl e
                | Inr candidates \<Rightarrow>
                    (case number_candidates pdf 1 candidates of
                       Inl e \<Rightarrow> Inl e
                     | Inr numbered \<Rightarrow>
                         (let report_data' =
                                (case map_of entries ''candidates'' of
                                   Some (JArr cs) \<Rightarrow> JObj (assoc_set entries ''candidates'' (JArr numbered))
                                 | _ \<Rightarrow> report_data)
                          in case (if truthy (case map_of entries ''overall_summary'' of
                                                None \<Rightarrow> JStr [] | Some s \<Rightarrow> s)
                                   then summary_section_error pdf report_data' else None) of
                               Some e \<Rightarrow> Inl e
                             | None \<Rightarrow>
                                 (case build_error pdf report_data' of
                                    Some e \<Rightarrow> Inl e
                                  | None \<Rightarrow> Inr (report_data', output_file)))))
           | _ \<Rightarrow> Inl AttributeError))"

section \<open>TalentMatcherApp.evaluate_candidates\<close>

record form_data =
  form_job_title :: string
  form_company :: string
  form_location :: string
  form_department :: string
  form_resume_files :: "string list"
  form_job_description_file :: "string option"
  form_api_key :: string

record app =
  latest_report_data :: "json option"
  latest_report_file :: "string option"
  latest_pdf_file :: "string option"

record machine =
  network :: net
  disk :: "string \<Rightarrow> json option"

definition TalentMatcherApp_evaluate_candidates ::
  "env \<Rightarrow> renderer \<Rightarrow> form_data \<Rightarrow> app \<Rightarrow> machine \<Rightarrow> (py_error + string) \<times> app \<times> machine" where
  "TalentMatcherApp_evaluate_candidates world pdf form self m =
     (let key = strip (form_api_key form) in
      if key = [] then (Inl ValueError, self, m)
      else
        (let jd = (case form_job_description_file form of
                     None \<Rightarrow> None
                   | Some f \<Rightarrow> if f = [] then None else text_files world f);
             evaluator = CVEvaluator_init key jd
         in case evaluate_candidates world evaluator (form_resume_files form) (form_job_title form)
                   (form_company form) (form_department form) (form_location form) [] (network m) of
              (Inl e, n1) \<Rightarrow> (Inl e, self, m\<lparr>network := n1\<rparr>)
            | (Inr report_data, n1) \<Rightarrow>
                (case save_json_report report_data ''evaluation_report.json'' (disk m) of
                   (report_file, disk1) \<Rightarrow>
                     (case generate_pdf pdf report_data
                             (''evaluation_report_'' @ timestamp world @ ''.pdf'') of
                        Inl e \<Rightarrow> (Inl e, self, \<lparr>network = n1, disk = disk1\<rparr>)
                      | Inr (report_data', pdf_path) \<Rightarrow>
                          (Inr report_file,
                           \<lparr>latest_report_data = Some report_data',
                            latest_report_file = Some report_file,
                            latest_pdf_file = Some pdf_path\<rparr>,
                           \<lparr>network = n1, disk = disk1\<rparr>)))))"

section \<open>The properties, in the words of the specification\<close>

text \<open>\<^verbatim>\<open>s\<close> occurs in \<^verbatim>\<open>t\<close>.\<close>

definition contains :: "string \<Rightarrow> string \<Rightarrow> bool" where
  "contains t s = sublist s t"

text \<open>
  In the words of the specification (4.1), the extraction of a file succeeds when it
  yields text that is neither empty nor white space only.
\<close>

definition extraction_succeeded :: "env \<Rightarrow> string \<Rightarrow> bool" where
  "extraction_succeeded world cv_file =
     (case extract_text_from_pdf world cv_file of
        None \<Rightarrow> False
      | Some cv_text \<Rightarrow> strip cv_text \<noteq> [])"

text \<open>
  What the program counts instead. A candidate is counted when its file yields at least
  one character of text, white space or not, and the LLM client returns a value other
  than the empty ones (\<^verbatim>\<open>None\<close>, \<^verbatim>\<open>False\<close>, 0, the empty string, list and dictionary).
  One flag per input file, in input order; every call sees the network as the calls
  before it left it.
\<close>

definition empty_value :: "json \<Rightarrow> bool" where
  "empty_value v = (v \<in> set [JNull, JBool False, JInt 0, JStr [], JArr [], JObj []])"

fun counted :: "env \<Rightarrow> cv_evaluator \<Rightarrow> string list \<Rightarrow> string \<Rightarrow> string \<Rightarrow> string \<Rightarrow> net \<Rightarrow> bool list" where
  "counted world self [] job_title company department n = []"
| "counted world self (cv_file # rest) job_title company department n =
     (case extract_text_from_pdf world cv_file of
        None \<Rightarrow> False # counted world self rest job_title company department n
      | Some cv_text \<Rightarrow>
          if length cv_text = 0 then False # counted world self rest job_title company department n
          else
            (case call_deepseek_api (json_loads world) self
                    (create_evaluation_prompt self cv_text
                       (replace_char (CHR ''-'') (CHR '' '')
                          (replace_char (CHR ''_'') (CHR '' '') (path_stem world cv_file)))
                       job_title company department) 3 n of
               (r, n1) \<Rightarrow>
                 (case r of Inr evaluation \<Rightarrow> \<not> empty_value evaluation | Inl e \<Rightarrow> False)
                 # counted world self rest job_title company department n1))"

text \<open>The integer score of an evaluation, and the order of the report.\<close>

definition match_score :: "json \<Rightarrow> int option" where
  "match_score e = (case getitem e ''match_score'' of Inl x \<Rightarrow> None | Inr k \<Rightarrow> numeric_key k)"

definition score_ge :: "json \<Rightarrow> json \<Rightarrow> bool" where
  "score_ge a b = (case (match_score a, match_score b) of
                     (Some x, Some y) \<Rightarrow> y \<le> x
                   | _ \<Rightarrow> False)"

text \<open>An object with the fields the summary step reads, as the data model has them: a
  name that is a string, an integer score, a rating summary that is a string.\<close>

fun is_str :: "py_error + json \<Rightarrow> bool" where
  "is_str (Inr (JStr s)) = True"
| "is_str _ = False"

fun is_int :: "py_error + json \<Rightarrow> bool" where
  "is_int (Inr (JInt i)) = True"
| "is_int _ = False"

definition evaluation_shaped :: "json \<Rightarrow> bool" where
  "evaluation_shaped e =
     (is_str (getitem e ''candidate_name'') \<and> is_int (getitem e ''match_score'')
      \<and> is_str (getitem e ''rating_summary''))"

section \<open>Sample data\<close>

text \<open>
  A response body of the shape the endpoint documents, and the values of
  \<^verbatim>\<open>json.loads\<close> on the texts used in the examples (the general theorems hold for
  every decoder; this table only fixes one for the examples, and any text not listed
  counts as undecodable there).
\<close>

definition chat_body :: "string \<Rightarrow> json" where
  "chat_body content =
     JObj [(''choices'', JArr [JObj [(''message'',
             JObj [(''role'', JStr ''assistant''), (''content'', JStr content)])]])]"

definition ada_text :: string where
  \<open>ada_text = ''{"candidate_name": "Ada", "match_score": 88, "rating_summary": "Strong"}''\<close>

definition ada :: json where
  "ada = JObj [(''candidate_name'', JStr ''Ada''), (''match_score'', JInt 88),
               (''rating_summary'', JStr ''Strong'')]"

definition bob_text :: string where
  \<open>bob_text = ''{"candidate_name": "Bob", "match_score": 88, "rating_summary": "Solid"}''\<close>

definition bob :: json where
  "bob = JObj [(''candidate_name'', JStr ''Bob''), (''match_score'', JInt 88),
               (''rating_summary'', JStr ''Solid'')]"

definition cy_text :: string where
  \<open>cy_text = ''{"candidate_name": "Cy", "match_score": 93, "rating_summary": "Excellent"}''\<close>

definition cy :: json where
  "cy = JObj [(''candidate_name'', JStr ''Cy''), (''match_score'', JInt 93),
              (''rating_summary'', JStr ''Excellent'')]"

definition sample_loads :: "string \<Rightarrow> json option" where
  \<open>sample_loads =
     map_of [(''null'', JNull),
             (''{"a":1}'', JObj [(''a'', JInt 1)]),
             (ada_text, ada), (bob_text, bob), (cy_text, cy)]\<close>

definition fenced :: string where
  \<open>fenced = ''```json\<newline>{"a":1}\<newline>```''\<close>

text \<open>Three readable files, one whose only page is a blank, one with no text, and (any
  other name) files that cannot be opened.\<close>

definition sample_world :: env where
  "sample_world =
     \<lparr>json_loads = sample_loads,
      path_stem = takeWhile (\<lambda>c. c \<noteq> CHR ''.''),
      pdf_pages = map_of [(''ada.pdf'', [Some ''Ada CV'']), (''bob.pdf'', [Some ''Bob CV'']),
                          (''cy.pdf'', [Some ''Cy '', Some ''CV'']),
                          (''blank.pdf'', [Some '' '']), (''empty.pdf'', [Some []])],
      text_files = (\<lambda>f. None),
      report_date = ''03 November 2026'',
      timestamp = ''20261103_120000''\<rparr>"

definition sample_evaluator :: cv_evaluator where
  "sample_evaluator = CVEvaluator_init ''sk-test'' None"

definition offline :: net where
  "offline = \<lparr>endpoint = (\<lambda>k. RequestFailed), sent = []\<rparr>"

text \<open>An endpoint that answers the requests with the given contents, in order, and
  fails afterwards.\<close>

definition answering :: "string list \<Rightarrow> net" where
  "answering contents =
     \<lparr>endpoint = (\<lambda>k. if k < length contents then Body (chat_body (contents ! k))
                        else RequestFailed),
      sent = []\<rparr>"

definition second_try :: net where
  "second_try =
     \<lparr>endpoint = (\<lambda>k. if k = 0 then RequestFailed else Body (chat_body ada_text)), sent = []\<rparr>"

definition sample_renderer :: renderer where
  "sample_renderer =
     \<lparr>front_matter_error = (\<lambda>r. None), section_error = (\<lambda>c. None),
      summary_section_error = (\<lambda>r. None), build_error = (\<lambda>r. None)\<rparr>"

definition sample_form :: form_data where
  "sample_form =
     \<lparr>form_job_title = ''Engineer'', form_company = ''Acme'', form_location = ''Cairo'',
      form_department = ''Department'', form_resume_files = [''ada.pdf''],
      form_job_description_file = None, form_api_key = ''sk-test''\<rparr>"

definition fresh_app :: app where
  "fresh_app = \<lparr>latest_report_data = None, latest_report_file = None, latest_pdf_file = None\<rparr>"

definition sample_machine :: machine where
  "sample_machine = \<lparr>network = answering [ada_text], disk = Map.empty\<rparr>"

text \<open>The report of the run of \<^verbatim>\<open>sample_form\<close> on \<^verbatim>\<open>sample_machine\<close>.\<close>

definition sample_report :: json where
  "sample_report =
     JObj [(''report_header'', JObj
              [(''role'', JStr ''Engineer''), (''department'', JStr ''Department''),
               (''company'', JStr ''Acme''), (''location'', JStr ''Cairo''),
               (''work_mode'', JStr []), (''report_date'', JStr ''03 November 2026''),
               (''assessment_method'', JStr assessment_method_text)]),
           (''candidates'', JArr [ada]),
           (''overall_summary'',
            JStr ''Ada is the only candidate evaluated with a match score of 88/100.''),
           (''total_candidates'', JInt 1)]"

section \<open>The LLM client\<close>

lemma retry_loop_RequestFailed:
  "attempt < max_retries \<Longrightarrow> endpoint n (length (sent n)) = RequestFailed \<Longrightarrow>
   retry_loop loads req max_retries attempt content n =
     (if attempt = max_retries - 1 then (Inl RequestException, n\<lparr>sent := sent n @ [req]\<rparr>)
      else retry_loop loads req max_retries (attempt + 1) content (n\<lparr>sent := sent n @ [req]\<rparr>))"
  by (subst retry_loop.simps) (simp add: post_def)

lemma retry_loop_BodyNotJSON:
  "attempt < max_retries \<Longrightarrow> endpoint n (length (sent n)) = BodyNotJSON \<Longrightarrow>
   retry_loop loads req max_retries attempt content n =
     (if attempt = max_retries - 1
      then (Inl (if content = None then UnboundLocalError else JSONDecodeError),
            n\<lparr>sent := sent n @ [req]\<rparr>)
      else retry_loop loads req max_retries (attempt + 1) content (n\<lparr>sent := sent n @ [req]\<rparr>))"
  by (subst retry_loop.simps) (simp add: post_def split: option.splits)

lemma retry_loop_Body_error:
  "attempt < max_retries \<Longrightarrow> endpoint n (length (sent n)) = Body result \<Longrightarrow>
   message_content result = Inl e \<Longrightarrow>
   retry_loop loads req max_retries attempt content n = (Inl e, n\<lparr>sent := sent n @ [req]\<rparr>)"
  by (subst retry_loop.simps) (simp add: post_def)

lemma retry_loop_Body_not_str:
  "attempt < max_retries \<Longrightarrow> endpoint n (length (sent n)) = Body result \<Longrightarrow>
   message_content result = Inr c \<Longrightarrow> (\<forall>s. c \<noteq> JStr s) \<Longrightarrow>
   retry_loop loads req max_retries attempt content n =
     (Inl AttributeError, n\<lparr>sent := sent n @ [req]\<rparr>)"
  by (subst retry_loop.simps) (simp add: post_def split: json.splits)

lemma retry_loop_Body_str:
  "attempt < max_retries \<Longrightarrow> endpoint n (length (sent n)) = Body result \<Longrightarrow>
   message_content result = Inr (JStr c) \<Longrightarrow>
   retry_loop loads req max_retries attempt content n =
     (case loads (clean_content c) of
        Some evaluation \<Rightarrow> (Inr evaluation, n\<lparr>sent := sent n @ [req]\<rparr>)
      | None \<Rightarrow>
          if attempt = max_retries - 1 then (Inl JSONDecodeError, n\<lparr>sent := sent n @ [req]\<rparr>)
          else retry_loop loads req max_retries (attempt + 1) (Some (clean_content c))
                 (n\<lparr>sent := sent n @ [req]\<rparr>))"
  by (subst retry_loop.simps) (simp add: post_def Let_def)

text \<open>When every remaining attempt meets a transport failure, the loop makes all of them
  and raises.\<close>

lemma retry_loop_all_fail:
  "nat (max_retries - attempt) = Suc j \<Longrightarrow>
   (\<forall>k. k \<le> j \<longrightarrow> endpoint n (length (sent n) + k) = RequestFailed) \<Longrightarrow>
   retry_loop loads req max_retries attempt content n =
     (Inl RequestException, n\<lparr>sent := sent n @ replicate (Suc j) req\<rparr>)"
proof (induction j arbitrary: attempt n)
  case 0
  then have a: "attempt = max_retries - 1" "attempt < max_retries" by linarith+
  from 0 have "endpoint n (length (sent n)) = RequestFailed" by simp
  with a show ?case by (simp add: retry_loop_RequestFailed)
next
  case (Suc j)
  let ?n1 = "n\<lparr>sent := sent n @ [req]\<rparr>"
  from Suc.prems have a: "attempt \<noteq> max_retries - 1" "attempt < max_retries" by linarith+
  from Suc.prems have f: "endpoint n (length (sent n)) = RequestFailed"
    by (metis add.right_neutral le0)
  have m: "nat (max_retries - (attempt + 1)) = Suc j" using Suc.prems(1) by linarith
  have rest: "\<forall>k. k \<le> j \<longrightarrow> endpoint ?n1 (length (sent ?n1) + k) = RequestFailed"
  proof (intro allI impI)
    fix k assume "k \<le> j"
    then have "Suc k \<le> Suc j" by simp
    with Suc.prems(2) have "endpoint n (length (sent n) + Suc k) = RequestFailed" by blast
    then show "endpoint ?n1 (length (sent ?n1) + k) = RequestFailed" by simp
  qed
  have ih: "retry_loop loads req max_retries (attempt + 1) content ?n1 =
          (Inl RequestException, ?n1\<lparr>sent := sent ?n1 @ replicate (Suc j) req\<rparr>)"
    by (rule Suc.IH[OF m rest])
  show ?case
    using a f ih by (simp add: retry_loop_RequestFailed)
qed

text \<open>A value returned from inside the loop was decoded from the content of the response
  to the last request.\<close>

lemma retry_loop_returned:
  "retry_loop loads req max_retries attempt content n = (Inr v, n') \<Longrightarrow>
   attempt < max_retries \<Longrightarrow>
   \<exists>result c. length (sent n) < length (sent n') \<and> endpoint n' = endpoint n \<and>
      endpoint n (length (sent n') - 1) = Body result \<and>
      message_content result = Inr (JStr c) \<and> loads (clean_content c) = Some v"
proof (induction j \<equiv> "nat (max_retries - attempt)" arbitrary: attempt n content)
  case 0
  then show ?case by simp
next
  case (Suc j)
  let ?n1 = "n\<lparr>sent := sent n @ [req]\<rparr>"
  let ?goal = "\<exists>result c. length (sent n) < length (sent n') \<and> endpoint n' = endpoint n \<and>
      endpoint n (length (sent n') - 1) = Body result \<and>
      message_content result = Inr (JStr c) \<and> loads (clean_content c) = Some v"
  have step: "?goal" if ne: "attempt \<noteq> max_retries - 1"
       and r: "retry_loop loads req max_retries (attempt + 1) c' ?n1 = (Inr v, n')" for c'
  proof -
    from ne Suc.prems(2) have lt: "attempt + 1 < max_retries" by simp
    from Suc.hyps(2) have j: "j = nat (max_retries - (attempt + 1))" by linarith
    from Suc.hyps(1)[OF j r lt] obtain result c where
      "length (sent ?n1) < length (sent n')" "endpoint n' = endpoint ?n1"
      "endpoint ?n1 (length (sent n') - 1) = Body result"
      "message_content result = Inr (JStr c)" "loads (clean_content c) = Some v"
      by blast
    then show ?thesis by auto
  qed
  show ?case
  proof (cases "endpoint n (length (sent n))")
    case RequestFailed
    with Suc.prems step show ?thesis
      by (cases "attempt = max_retries - 1") (simp_all add: retry_loop_RequestFailed)
  next
    case BodyNotJSON
    with Suc.prems step show ?thesis
      by (cases "attempt = max_retries - 1") (simp_all add: retry_loop_BodyNotJSON)
  next
    case (Body result)
    show ?thesis
    proof (cases "message_content result")
      case (Inl e)
      with Body Suc.prems show ?thesis by (simp add: retry_loop_Body_error)
    next
      case (Inr cv)
      show ?thesis
      proof (cases "\<exists>s. cv = JStr s")
        case False
        with Body Inr Suc.prems show ?thesis by (simp add: retry_loop_Body_not_str)
      next
        case True
        then obtain s where s: "cv = JStr s" by blast
        show ?thesis
        proof (cases "loads (clean_content s)")
          case None
          with Body Inr s Suc.prems step show ?thesis
            by (cases "attempt = max_retries - 1") (simp_all add: retry_loop_Body_str)
        next
          case (Some ev)
          with Body Inr s Suc.prems have "ev = v" "n' = ?n1"
            by (simp_all add: retry_loop_Body_str)
          with Body Inr s Some show ?thesis by auto
        qed
      qed
    qed
  qed
qed

lemma message_content_chat_body: "message_content (chat_body c) = Inr (JStr c)"
  by (simp add: message_content_def chat_body_def)

lemma clean_content_fenced: \<open>clean_content fenced = ''{"a":1}''\<close>
  by (simp add: clean_content_def fenced_def startswith_def endswith_def strip_def py_isspace_def)

lemma clean_content_null: "clean_content ''null'' = ''null''"
  by (simp add: clean_content_def startswith_def endswith_def strip_def py_isspace_def)

lemma clean_content_ada: "clean_content ada_text = ada_text"
  by (simp add: clean_content_def ada_text_def startswith_def endswith_def strip_def py_isspace_def)

lemma clean_content_bob: "clean_content bob_text = bob_text"
  by (simp add: clean_content_def bob_text_def startswith_def endswith_def strip_def py_isspace_def)

lemma clean_content_cy: "clean_content cy_text = cy_text"
  by (simp add: clean_content_def cy_text_def startswith_def endswith_def strip_def py_isspace_def)

lemma sample_loads_values:
  \<open>sample_loads ''null'' = Some JNull\<close>
  \<open>sample_loads ''{"a":1}'' = Some (JObj [(''a'', JInt 1)])\<close>
  \<open>sample_loads ada_text = Some ada\<close>
  \<open>sample_loads bob_text = Some bob\<close>
  \<open>sample_loads cy_text = Some cy\<close>
  by (simp_all add: sample_loads_def ada_text_def bob_text_def cy_text_def)

text \<open>
  C2. With every attempt meeting a transport failure, \<^verbatim>\<open>call_deepseek_api\<close> sends exactly
  \<^verbatim>\<open>max_retries\<close> requests and then raises the transport error. If the first attempt
  fails and the second is answered with a content that decodes, the decoded value is
  returned after exactly two requests.
\<close>

theorem call_deepseek_api_retries:
  assumes "0 < max_retries"
  shows "((\<forall>k<nat max_retries. endpoint n (length (sent n) + k) = RequestFailed) \<longrightarrow>
            call_deepseek_api loads self prompt max_retries n =
              (Inl RequestException,
               n\<lparr>sent := sent n @ replicate (nat max_retries) (evaluation_request self prompt)\<rparr>))
       \<and> (1 < max_retries \<and> endpoint n (length (sent n)) = RequestFailed
            \<and> endpoint n (Suc (length (sent n))) = Body result
            \<and> message_content result = Inr (JStr c) \<and> loads (clean_content c) = Some v \<longrightarrow>
            call_deepseek_api loads self prompt max_retries n =
              (Inr v, n\<lparr>sent := sent n @ replicate 2 (evaluation_request self prompt)\<rparr>))"
proof (intro conjI impI)
  assume all: "\<forall>k<nat max_retries. endpoint n (length (sent n) + k) = RequestFailed"
  from assms obtain j where j: "nat (max_retries - 0) = Suc j"
    by (metis diff_zero not0_implies_Suc zero_less_nat_eq less_irrefl)
  with all have "\<forall>k. k \<le> j \<longrightarrow> endpoint n (length (sent n) + k) = RequestFailed"
    by simp
  from retry_loop_all_fail[OF j this] j
  show "call_deepseek_api loads self prompt max_retries n =
          (Inl RequestException,
           n\<lparr>sent := sent n @ replicate (nat max_retries) (evaluation_request self prompt)\<rparr>)"
    by (simp add: call_deepseek_api_def)
next
  let ?req = "evaluation_request self prompt"
  let ?n1 = "n\<lparr>sent := sent n @ [?req]\<rparr>"
  assume h: "1 < max_retries \<and> endpoint n (length (sent n)) = RequestFailed
            \<and> endpoint n (Suc (length (sent n))) = Body result
            \<and> message_content result = Inr (JStr c) \<and> loads (clean_content c) = Some v"
  then have first: "retry_loop loads ?req max_retries 0 None n =
                      retry_loop loads ?req max_retries 1 None ?n1"
    by (simp add: retry_loop_RequestFailed)
  from h have "endpoint ?n1 (length (sent ?n1)) = Body result" by simp
  with h have "retry_loop loads ?req max_retries 1 None ?n1 =
                 (Inr v, ?n1\<lparr>sent := sent ?n1 @ [?req]\<rparr>)"
    by (simp add: retry_loop_Body_str)
  with first
  show "call_deepseek_api loads self prompt max_retries n =
          (Inr v, n\<lparr>sent := sent n @ replicate 2 ?req\<rparr>)"
    by (simp add: call_deepseek_api_def numeral_2_eq_2)
qed

theorem call_deepseek_api_retries_witness:
  "call_deepseek_api sample_loads sample_evaluator ''prompt'' 3 offline =
     (Inl RequestException,
      offline\<lparr>sent := replicate 3 (evaluation_request sample_evaluator ''prompt'')\<rparr>)
   \<and> call_deepseek_api sample_loads sample_evaluator ''prompt'' 3 second_try =
     (Inr ada, second_try\<lparr>sent := replicate 2 (evaluation_request sample_evaluator ''prompt'')\<rparr>)"
proof -
  have pos: "(0::int) < 3" by simp
  have a: "\<forall>k<nat 3. endpoint offline (length (sent offline) + k) = RequestFailed"
    by (simp add: offline_def)
  have b: "(1::int) < 3 \<and> endpoint second_try (length (sent second_try)) = RequestFailed
            \<and> endpoint second_try (Suc (length (sent second_try))) = Body (chat_body ada_text)
            \<and> message_content (chat_body ada_text) = Inr (JStr ada_text)
            \<and> sample_loads (clean_content ada_text) = Some ada"
    by (simp add: second_try_def message_content_chat_body clean_content_ada sample_loads_values)
  from call_deepseek_api_retries[OF pos, of offline sample_loads sample_evaluator "''prompt''"] a
  have "call_deepseek_api sample_loads sample_evaluator ''prompt'' 3 offline =
     (Inl RequestException,
      offline\<lparr>sent := replicate 3 (evaluation_request sample_evaluator ''prompt'')\<rparr>)"
    by (simp add: offline_def)
  moreover
  from call_deepseek_api_retries[OF pos, of second_try sample_loads sample_evaluator "''prompt''"
         "chat_body ada_text" ada_text ada] b
  have "call_deepseek_api sample_loads sample_evaluator ''prompt'' 3 second_try =
     (Inr ada, second_try\<lparr>sent := replicate 2 (evaluation_request sample_evaluator ''prompt'')\<rparr>)"
    by (simp add: second_try_def)
  ultimately show ?thesis by simp
qed

text \<open>
  C8. A response content made of an opening fence tagged json, a line break, the text
  \<^verbatim>\<open>{"a":1}\<close>, a line break and a closing fence is cleaned to \<^verbatim>\<open>{"a":1}\<close>, and the client
  returns what \<^verbatim>\<open>json.loads\<close> gives for that text, the object with the one key a and the
  value 1.
\<close>

theorem fence_stripping:
  assumes \<open>loads ''{"a":1}'' = Some (JObj [(''a'', JInt 1)])\<close>
      and "0 < max_retries"
      and "endpoint n (length (sent n)) = Body result"
      and "message_content result = Inr (JStr fenced)"
  shows \<open>clean_content fenced = ''{"a":1}''
       \<and> fst (call_deepseek_api loads self prompt max_retries n) = Inr (JObj [(''a'', JInt 1)])\<close>
  using assms
  by (simp add: clean_content_fenced call_deepseek_api_def retry_loop_Body_str)

theorem fence_stripping_witness:
  \<open>clean_content fenced = ''{"a":1}''
   \<and> fst (call_deepseek_api sample_loads sample_evaluator ''prompt'' 3 (answering [fenced]))
       = Inr (JObj [(''a'', JInt 1)])\<close>
proof -
  have 1: \<open>sample_loads ''{"a":1}'' = Some (JObj [(''a'', JInt 1)])\<close>
    by (rule sample_loads_values)
  have 2: "(0::int) < 3" by simp
  have 3: "endpoint (answering [fenced]) (length (sent (answering [fenced]))) = Body (chat_body fenced)"
    by (simp add: answering_def)
  have 4: "message_content (chat_body fenced) = Inr (JStr fenced)"
    by (rule message_content_chat_body)
  show ?thesis
    by (rule fence_stripping[where loads = sample_loads and max_retries = 3
          and n = "answering [fenced]" and result = "chat_body fenced", OF 1 2 3 4])
qed

text \<open>
  C10, as the code has it. For \<^verbatim>\<open>max_retries\<close> of at least 1 the statement after the loop
  is never reached: a call that returns, returns the value \<^verbatim>\<open>json.loads\<close> gave for the
  cleaned content of the response to the last request it sent. That value is \<^verbatim>\<open>None\<close>
  when the content is the JSON literal null, which is the one way the call returns
  \<^verbatim>\<open>None\<close>.
\<close>

theorem call_deepseek_api_returns_decoded:
  assumes "0 < max_retries"
      and "call_deepseek_api loads self prompt max_retries n = (Inr v, n')"
  shows "\<exists>result c. length (sent n) < length (sent n')
           \<and> endpoint n (length (sent n') - 1) = Body result
           \<and> message_content result = Inr (JStr c)
           \<and> loads (clean_content c) = Some v"
  using retry_loop_returned[of loads "evaluation_request self prompt" max_retries 0 None n v n'] assms
  by (auto simp: call_deepseek_api_def)

lemma call_answering_first:
  "sample_loads (clean_content c) = Some v \<Longrightarrow>
   call_deepseek_api sample_loads self prompt 3 (answering (c # cs)) =
     (Inr v, (answering (c # cs))\<lparr>sent := [evaluation_request self prompt]\<rparr>)"
  by (simp add: call_deepseek_api_def retry_loop_Body_str[where result = "chat_body c" and c = c]
        answering_def message_content_chat_body)

theorem call_deepseek_api_returns_decoded_witness:
  "call_deepseek_api sample_loads sample_evaluator ''prompt'' 3 (answering [ada_text]) =
     (Inr ada, (answering [ada_text])\<lparr>sent := [evaluation_request sample_evaluator ''prompt'']\<rparr>)
   \<and> (\<exists>result c. endpoint (answering [ada_text]) 0 = Body result
           \<and> message_content result = Inr (JStr c)
           \<and> sample_loads (clean_content c) = Some ada)"
proof -
  have pos: "(0::int) < 3" by simp
  have r: "call_deepseek_api sample_loads sample_evaluator ''prompt'' 3 (answering [ada_text]) =
     (Inr ada, (answering [ada_text])\<lparr>sent := [evaluation_request sample_evaluator ''prompt'']\<rparr>)"
    by (simp add: call_answering_first clean_content_ada sample_loads_values)
  from call_deepseek_api_returns_decoded[OF pos r] r show ?thesis
    by simp
qed

text \<open>The claim as written fails: answered with the content null, the call returns
  \<^verbatim>\<open>None\<close>.\<close>

theorem call_deepseek_api_returns_None:
  "fst (call_deepseek_api sample_loads sample_evaluator ''prompt'' 3 (answering [''null''])) = Inr JNull"
  by (simp add: call_answering_first clean_content_null sample_loads_values)

section \<open>The evaluation prompt\<close>

lemma sublist_in_context: "sublist s m \<Longrightarrow> sublist s (a @ m @ b)"
proof -
  assume "sublist s m"
  then obtain ps ss where "m = ps @ s @ ss" by (auto simp: sublist_def)
  then have "a @ m @ b = (a @ ps) @ s @ (ss @ b)" by simp
  then show ?thesis unfolding sublist_def by blast
qed

lemma prompt_around_scoring_system:
  "create_evaluation_prompt self cv_text candidate_name job_title company department
      = (prompt_intro @ job_title @ ''\<newline>- Company: '' @ company
         @ ''\<newline>- Department: '' @ department @ ''\<newline>''
         @ (case job_description self of
              None \<Rightarrow> []
            | Some jd \<Rightarrow> if jd = [] then [] else ''- Job Description: '' @ jd)
         @ ''\<newline>\<newline>**CANDIDATE CV:**\<newline>'' @ cv_text @ ''\<newline>\<newline>''
         @ task_section)
        @ (scoring_system @ leniency_instruction)
        @ (output_format_head @ candidate_name @ output_format_tail @ rules_section)"
  unfolding create_evaluation_prompt_def
  by (simp only: append.assoc)

lemma prompt_contains:
  "sublist s (scoring_system @ leniency_instruction) \<Longrightarrow>
   contains (create_evaluation_prompt self cv_text candidate_name job_title company department) s"
  unfolding contains_def prompt_around_scoring_system
  by (rule sublist_in_context)

lemma in_scoring_system:
  "sublist s scoring_system \<Longrightarrow> sublist s (scoring_system @ leniency_instruction)"
  using sublist_in_context[of s scoring_system "[]" leniency_instruction] by simp

lemma in_leniency_instruction:
  "sublist s leniency_instruction \<Longrightarrow> sublist s (scoring_system @ leniency_instruction)"
  using sublist_in_context[of s leniency_instruction scoring_system "[]"] by simp

lemma scoring_total: "sublist ''**SCORING SYSTEM (Total: 100 points):**'' scoring_system"
  by (simp add: scoring_system_def sublist_code(3))

lemma scoring_core: "sublist ''- Core Skills Match: 35 points'' scoring_system"
  by (simp add: scoring_system_def sublist_code(3))

lemma scoring_relevance: "sublist ''- Experience Relevance: 25 points'' scoring_system"
  by (simp add: scoring_system_def sublist_code(3))

lemma scoring_level: "sublist ''- Experience Level: 15 points'' scoring_system"
  by (simp add: scoring_system_def sublist_code(3))

lemma scoring_education: "sublist ''- Education and Certifications: 5 points'' scoring_system"
  by (simp add: scoring_system_def sublist_code(3))

lemma scoring_soft: "sublist ''- Soft Skills and Competencies: 10 points'' scoring_system"
  by (simp add: scoring_system_def sublist_code(3))

lemma scoring_bonus: "sublist ''- Bonus Fit Indicators: 10 points'' scoring_system"
  by (simp add: scoring_system_def sublist_code(3))

lemma leniency_qualified:
  "sublist ''Most qualified candidates should score 65-85.'' leniency_instruction"
  by (simp add: leniency_instruction_def sublist_code(3))

lemma leniency_exceptional:
  "sublist ''Only truly exceptional candidates score 90+.'' leniency_instruction"
  by (simp add: leniency_instruction_def sublist_code(3))

lemma leniency_mismatch:
  "sublist ''Only severely mismatched candidates score below 50.'' leniency_instruction"
  by (simp add: leniency_instruction_def sublist_code(3))

text \<open>
  C9. Whatever the CV text, the candidate name and the job data, the evaluation prompt
  contains the six category lines with their points (35, 25, 15, 5, 10 and 10, which the
  heading totals to 100) and the three sentences of the leniency instruction: qualified
  candidates 65-85, exceptional candidates 90+, severe mismatches below 50.
\<close>

theorem create_evaluation_prompt_contents:
  "contains (create_evaluation_prompt self cv_text candidate_name job_title company department)
     ''- Core Skills Match: 35 points''
   \<and> contains (create_evaluation_prompt self cv_text candidate_name job_title company department)
     ''- Experience Relevance: 25 points''
   \<and> contains (create_evaluation_prompt self cv_text candidate_name job_title company department)
     ''- Experience Level: 15 points''
   \<and> contains (create_evaluation_prompt self cv_text candidate_name job_title company department)
     ''- Education and Certifications: 5 points''
   \<and> contains (create_evaluation_prompt self cv_text candidate_name job_title company department)
     ''- Soft Skills and Competencies: 10 points''
   \<and> contains (create_evaluation_prompt self cv_text candidate_name job_title company department)
     ''- Bonus Fit Indicators: 10 points''
   \<and> contains (create_evaluation_prompt self cv_text candidate_name job_title company department)
     ''**SCORING SYSTEM (Total: 100 points):**''
   \<and> (35 + 25 + 15 + 5 + 10 + 10 = (100::nat))
   \<and> contains (create_evaluation_prompt self cv_text candidate_name job_title company department)
     ''Most qualified candidates should score 65-85.''
   \<and> contains (create_evaluation_prompt self cv_text candidate_name job_title company department)
     ''Only truly exceptional candidates score 90+.''
   \<and> contains (create_evaluation_prompt self cv_text candidate_name job_title company department)
     ''Only severely mismatched candidates score below 50.''"
  by (intro conjI prompt_contains in_scoring_system[OF scoring_core]
        in_scoring_system[OF scoring_relevance] in_scoring_system[OF scoring_level]
        in_scoring_system[OF scoring_education] in_scoring_system[OF scoring_soft]
        in_scoring_system[OF scoring_bonus] in_scoring_system[OF scoring_total]
        in_leniency_instruction[OF leniency_qualified]
        in_leniency_instruction[OF leniency_exceptional]
        in_leniency_instruction[OF leniency_mismatch]) simp

section \<open>The overall summary\<close>

lemma digit_char_digit: "d < 10 \<Longrightarrow> digit_char d \<in> set ''0123456789''"
  unfolding digit_char_def by (rule nth_mem) simp

lemma dec_nat_digits: "set (dec_nat n) \<subseteq> set ''0123456789''"
proof (induction n rule: dec_nat.induct)
  case (1 n)
  show ?case
  proof (cases "n < 10")
    case True
    then show ?thesis using digit_char_digit[of n] by (subst dec_nat.simps) simp
  next
    case False
    have "n mod 10 < 10" by simp
    from digit_char_digit[OF this] 1[OF False] False show ?thesis
      by (subst dec_nat.simps) simp
  qed
qed

lemma dec_int_one_line: "CHR 0x0A \<notin> set (dec_int i)"
  using dec_nat_digits[of "nat i"] dec_nat_digits[of "nat (- i)"]
  by (auto simp: dec_int_def)

lemma dec_int_88: "dec_int 88 = ''88''"
  by (simp add: dec_int_def dec_nat.simps digit_char_def)

lemma dec_int_93: "dec_int 93 = ''93''"
  by (simp add: dec_int_def dec_nat.simps digit_char_def)

lemma ada_fields:
  "getitem ada ''candidate_name'' = Inr (JStr ''Ada'')"
  "getitem ada ''match_score'' = Inr (JInt 88)"
  "getitem ada ''rating_summary'' = Inr (JStr ''Strong'')"
  by (simp_all add: ada_def)

lemma bob_fields:
  "getitem bob ''candidate_name'' = Inr (JStr ''Bob'')"
  "getitem bob ''match_score'' = Inr (JInt 88)"
  "getitem bob ''rating_summary'' = Inr (JStr ''Solid'')"
  by (simp_all add: bob_def)

lemma cy_fields:
  "getitem cy ''candidate_name'' = Inr (JStr ''Cy'')"
  "getitem cy ''match_score'' = Inr (JInt 93)"
  "getitem cy ''rating_summary'' = Inr (JStr ''Excellent'')"
  by (simp_all add: cy_def)

text \<open>
  C6. With no evaluation the summary is the fixed sentence. With exactly one evaluation,
  whose name is a string and whose score is an integer, it is the one sentence made of
  the name and the score in decimal; it has no line break unless the name has one. In
  both cases the network is returned as it was: no request is sent.
\<close>

theorem generate_overall_summary_small:
  "generate_overall_summary self [] job_title n = (Inr ''No candidates were evaluated.'', n)
   \<and> (getitem e ''candidate_name'' = Inr (JStr name) \<and> getitem e ''match_score'' = Inr (JInt score)
        \<longrightarrow>
        generate_overall_summary self [e] job_title n =
          (Inr (name @ '' is the only candidate evaluated with a match score of ''
                @ dec_int score @ ''/100.''), n)
        \<and> contains (name @ '' is the only candidate evaluated with a match score of ''
                @ dec_int score @ ''/100.'') name
        \<and> contains (name @ '' is the only candidate evaluated with a match score of ''
                @ dec_int score @ ''/100.'') (dec_int score)
        \<and> (CHR 0x0A \<notin> set name \<longrightarrow>
             CHR 0x0A \<notin> set (name @ '' is the only candidate evaluated with a match score of ''
                @ dec_int score @ ''/100.'')))"
proof (intro conjI impI)
  show "generate_overall_summary self [] job_title n = (Inr ''No candidates were evaluated.'', n)"
    by (simp add: generate_overall_summary_def)
next
  assume "getitem e ''candidate_name'' = Inr (JStr name) \<and> getitem e ''match_score'' = Inr (JInt score)"
  then show "generate_overall_summary self [e] job_title n =
          (Inr (name @ '' is the only candidate evaluated with a match score of ''
                @ dec_int score @ ''/100.''), n)"
    by (simp add: generate_overall_summary_def only_candidate_sentence_def field_str_def)
next
  show "contains (name @ '' is the only candidate evaluated with a match score of ''
                @ dec_int score @ ''/100.'') name"
    unfolding contains_def using sublist_appendI[of name "[]"] by simp
next
  show "contains (name @ '' is the only candidate evaluated with a match score of ''
                @ dec_int score @ ''/100.'') (dec_int score)"
    unfolding contains_def
    using sublist_appendI[of "dec_int score"
            "name @ '' is the only candidate evaluated with a match score of ''" "''/100.''"]
    by simp
next
  assume "CHR 0x0A \<notin> set name"
  then show "CHR 0x0A \<notin> set (name @ '' is the only candidate evaluated with a match score of ''
                @ dec_int score @ ''/100.'')"
    using dec_int_one_line[of score] by simp
qed

theorem generate_overall_summary_small_witness:
  "generate_overall_summary sample_evaluator [ada] ''Engineer'' offline =
     (Inr ''Ada is the only candidate evaluated with a match score of 88/100.'', offline)
   \<and> contains ''Ada is the only candidate evaluated with a match score of 88/100.'' ''Ada''
   \<and> contains ''Ada is the only candidate evaluated with a match score of 88/100.'' ''88''
   \<and> CHR 0x0A \<notin> set ''Ada is the only candidate evaluated with a match score of 88/100.''"
  using generate_overall_summary_small[of sample_evaluator "''Engineer''" offline ada "''Ada''" 88]
  by (simp add: ada_fields dec_int_88)

section \<open>The ranking\<close>


lemma sort_keys_Inr:
  "sort_keys evs = Inr keys \<Longrightarrow>
   length keys = length evs \<and> (\<forall>i<length evs. getitem (evs ! i) ''match_score'' = Inr (keys ! i))"
proof (induction evs arbitrary: keys)
  case Nil
  then show ?case by simp
next
  case (Cons e evs)
  from Cons.prems obtain k ks where k: "getitem e ''match_score'' = Inr k"
    and ks: "sort_keys evs = Inr ks" and keys: "keys = k # ks"
    by (auto split: sum.splits)
  from Cons.IH[OF ks] k keys show ?case
    by (auto simp: nth_Cons split: nat.splits)
qed

lemma those_map_Some:
  "those (map f xs) = Some ys \<Longrightarrow> length ys = length xs \<and> (\<forall>i<length xs. f (xs ! i) = Some (ys ! i))"
proof (induction xs arbitrary: ys)
  case Nil
  then show ?case by simp
next
  case (Cons x xs)
  from Cons.prems obtain y ys' where y: "f x = Some y" and ys': "those (map f xs) = Some ys'"
    and ys: "ys = y # ys'"
    by (auto split: option.splits)
  from Cons.IH[OF ys'] y ys show ?case
    by (auto simp: nth_Cons split: nat.splits)
qed

text \<open>What a successful sort returns.\<close>

lemma sort_by_match_score_Inr:
  assumes "sort_by_match_score evs = Inr out"
  shows "(length evs < 2 \<and> out = evs)
       \<or> (\<exists>ks. length ks = length evs \<and> (\<forall>i<length evs. match_score (evs ! i) = Some (ks ! i))
              \<and> out = map snd (sort_key (\<lambda>p. - fst p) (zip ks evs)))"
proof -
  from assms obtain keys where keys: "sort_keys evs = Inr keys"
    by (auto simp: sort_by_match_score_def split: sum.splits)
  show ?thesis
  proof (cases "length evs < 2")
    case True
    with assms keys show ?thesis by (simp add: sort_by_match_score_def)
  next
    case False
    with assms keys obtain ks where ks: "those (map numeric_key keys) = Some ks"
      and out: "out = map snd (sort_key (\<lambda>p. - fst p) (zip ks evs))"
      by (auto simp: sort_by_match_score_def split: option.splits)
    from sort_keys_Inr[OF keys] those_map_Some[OF ks]
    have "length ks = length evs" "\<forall>i<length evs. match_score (evs ! i) = Some (ks ! i)"
      by (auto simp: match_score_def)
    with out show ?thesis by blast
  qed
qed

lemma sorted_wrt_short: "length xs < 2 \<Longrightarrow> sorted_wrt P xs"
  by (cases xs rule: list.exhaust; cases "tl xs") auto

lemma sort_by_match_score_sorted:
  assumes "sort_by_match_score evs = Inr out"
  shows "sorted_wrt score_ge out"
  using sort_by_match_score_Inr[OF assms]
proof (elim disjE exE conjE)
  assume "length evs < 2" "out = evs"
  then show ?thesis by (simp add: sorted_wrt_short)
next
  fix ks
  assume len: "length ks = length evs"
     and sc: "\<forall>i<length evs. match_score (evs ! i) = Some (ks ! i)"
     and out: "out = map snd (sort_key (\<lambda>p. - fst p) (zip ks evs))"
  let ?ps = "sort_key (\<lambda>p. - fst p) (zip ks evs)"
  have pairs: "match_score (snd p) = Some (fst p)" if "p \<in> set ?ps" for p
  proof -
    from that have "p \<in> set (zip ks evs)" by simp
    then obtain i where "i < length evs" "p = (ks ! i, evs ! i)"
      using len by (auto simp: set_zip)
    with sc show ?thesis by simp
  qed
  have "sorted (map (\<lambda>p. - fst p) ?ps)" by (rule sorted_sort_key)
  then have "sorted_wrt (\<lambda>p q. fst q \<le> fst p) ?ps"
    by (simp add: sorted_wrt_map)
  then have "sorted_wrt (\<lambda>p q. score_ge (snd p) (snd q)) ?ps"
    by (rule sorted_wrt_mono_rel[rotated]) (simp add: score_ge_def pairs)
  then show ?thesis by (simp add: out sorted_wrt_map)
qed

lemma sort_by_match_score_stable:
  assumes "sort_by_match_score evs = Inr out"
  shows "filter (\<lambda>e. match_score e = Some k) out = filter (\<lambda>e. match_score e = Some k) evs"
  using sort_by_match_score_Inr[OF assms]
proof (elim disjE exE conjE)
  assume "length evs < 2" "out = evs"
  then show ?thesis by simp
next
  fix ks
  assume len: "length ks = length evs"
     and sc: "\<forall>i<length evs. match_score (evs ! i) = Some (ks ! i)"
     and out: "out = map snd (sort_key (\<lambda>p. - fst p) (zip ks evs))"
  let ?ps = "zip ks evs"
  have pairs: "match_score (snd p) = Some (fst p)" if "p \<in> set ?ps" for p
  proof -
    from that obtain i where "i < length evs" "p = (ks ! i, evs ! i)"
      using len by (auto simp: set_zip)
    with sc show ?thesis by simp
  qed
  have same: "filter ((\<lambda>e. match_score e = Some k) \<circ> snd) qs = filter (\<lambda>p. - fst p = - k) qs"
    if "set qs \<subseteq> set ?ps" for qs
    using that pairs by (intro filter_cong) auto
  have "filter (\<lambda>e. match_score e = Some k) out
          = map snd (filter (\<lambda>p. - fst p = - k) (sort_key (\<lambda>p. - fst p) ?ps))"
    by (simp add: out filter_map same)
  also have "\<dots> = map snd (filter (\<lambda>p. - fst p = - k) ?ps)"
    by (simp only: sort_key_stable)
  also have "\<dots> = filter (\<lambda>e. match_score e = Some k) (map snd ?ps)"
    by (simp add: filter_map same)
  also have "map snd ?ps = evs" using len by simp
  finally show ?thesis .
qed

lemma sort_by_match_score_mset:
  assumes "sort_by_match_score evs = Inr out"
  shows "mset out = mset evs"
  using sort_by_match_score_Inr[OF assms]
proof (elim disjE exE conjE)
  assume "length evs < 2" "out = evs"
  then show ?thesis by simp
next
  fix ks
  assume len: "length ks = length evs"
     and out: "out = map snd (sort_key (\<lambda>p. - fst p) (zip ks evs))"
  have "mset out = image_mset snd (mset (zip ks evs))"
    unfolding out by (simp only: mset_map mset_sort)
  also have "\<dots> = mset (map snd (zip ks evs))" by (simp only: mset_map)
  also have "map snd (zip ks evs) = evs" using len by simp
  finally show ?thesis .
qed


section \<open>The orchestrator\<close>


lemma evaluate_loop_acc:
  "evaluate_loop world self cvs jt co d acc n =
     (acc @ fst (evaluate_loop world self cvs jt co d [] n),
      snd (evaluate_loop world self cvs jt co d [] n))"
proof (induction cvs arbitrary: acc n)
  case Nil
  show ?case by simp
next
  case (Cons f cvs)
  note ih = Cons.IH
  show ?case
  proof (cases "extract_text_from_pdf world f")
    case None
    then show ?thesis using ih[of acc n] by simp
  next
    case (Some t)
    show ?thesis
    proof (cases "t = []")
      case True
      with Some show ?thesis using ih[of acc n] by simp
    next
      case False
      obtain r n1 where call: "call_deepseek_api (json_loads world) self
          (create_evaluation_prompt self t
             (replace_char (CHR ''-'') (CHR '' '') (replace_char (CHR ''_'') (CHR '' '') (path_stem world f)))
             jt co d) 3 n = (r, n1)"
        by (cases "call_deepseek_api (json_loads world) self
          (create_evaluation_prompt self t
             (replace_char (CHR ''-'') (CHR '' '') (replace_char (CHR ''_'') (CHR '' '') (path_stem world f)))
             jt co d) 3 n") blast
      show ?thesis
      proof (cases r)
        case (Inl e)
        with Some False call show ?thesis using ih[of acc n1] by simp
      next
        case (Inr v)
        with Some False call show ?thesis
          using ih[of acc n1] ih[of "acc @ [v]" n1] ih[of "[v]" n1] by simp
      qed
    qed
  qed
qed

lemma truthy_iff: "truthy v = (\<not> empty_value v)"
  by (cases v) (auto simp: empty_value_def)

lemma length_counted: "length (counted world self cvs jt co d n) = length cvs"
  by (induction cvs arbitrary: n) (auto split: option.splits prod.splits)

lemma evaluate_loop_count:
  "length (fst (evaluate_loop world self cvs jt co d [] n))
     = length (filter id (counted world self cvs jt co d n))"
proof (induction cvs arbitrary: n)
  case Nil
  show ?case by simp
next
  case (Cons f cvs)
  show ?case
  proof (cases "extract_text_from_pdf world f")
    case None
    then show ?thesis using Cons.IH[of n] by simp
  next
    case (Some t)
    show ?thesis
    proof (cases "t = []")
      case True
      with Some show ?thesis using Cons.IH[of n] by simp
    next
      case False
      obtain r n1 where call: "call_deepseek_api (json_loads world) self
          (create_evaluation_prompt self t
             (replace_char (CHR ''-'') (CHR '' '') (replace_char (CHR ''_'') (CHR '' '') (path_stem world f)))
             jt co d) 3 n = (r, n1)"
        by (cases "call_deepseek_api (json_loads world) self
          (create_evaluation_prompt self t
             (replace_char (CHR ''-'') (CHR '' '') (replace_char (CHR ''_'') (CHR '' '') (path_stem world f)))
             jt co d) 3 n") blast
      show ?thesis
      proof (cases r)
        case (Inl e)
        with Some False call show ?thesis using Cons.IH[of n1] by simp
      next
        case (Inr v)
        with Some False call show ?thesis
          using Cons.IH[of n1] evaluate_loop_acc[of world self cvs jt co d "[v]" n1]
          by (simp add: truthy_iff)
      qed
    qed
  qed
qed

text \<open>What \<^verbatim>\<open>evaluate_candidates\<close> returns when it returns.\<close>

lemma evaluate_candidates_Inr:
  assumes "evaluate_candidates world self cvs jt co d loc wm n = (Inr report, n')"
  shows "\<exists>out summary.
           sort_by_match_score (fst (evaluate_loop world self cvs jt co d [] n)) = Inr out
         \<and> generate_overall_summary self out jt (snd (evaluate_loop world self cvs jt co d [] n))
             = (Inr summary, n')
         \<and> report = JObj
             [(''report_header'', JObj
                 [(''role'', JStr jt), (''department'', JStr d), (''company'', JStr co),
                  (''location'', JStr loc), (''work_mode'', JStr wm),
                  (''report_date'', JStr (report_date world)),
                  (''assessment_method'', JStr assessment_method_text)]),
              (''candidates'', JArr out),
              (''overall_summary'', JStr summary),
              (''total_candidates'', JInt (int (length out)))]"
  using assms
  by (auto simp: evaluate_candidates_def split: prod.splits sum.splits)

text \<open>
  C1, as the code has it. In a report that \<^verbatim>\<open>evaluate_candidates\<close> returns,
  \<^verbatim>\<open>total_candidates\<close> is the length of \<^verbatim>\<open>candidates\<close> and the number of input files that
  yielded at least one character of text (white space or not) and for which the LLM
  client returned a value that is not empty; it is below the number of input files as
  soon as one candidate was not counted.
\<close>

theorem total_candidates_counts_successes:
  assumes "evaluate_candidates world self cv_files job_title company department location work_mode n
             = (Inr report, n')"
  shows "\<exists>candidates.
           getitem report ''candidates'' = Inr (JArr candidates)
         \<and> getitem report ''total_candidates'' = Inr (JInt (int (length candidates)))
         \<and> length candidates
             = length (filter id (counted world self cv_files job_title company department n))
         \<and> length (counted world self cv_files job_title company department n) = length cv_files
         \<and> (False \<in> set (counted world self cv_files job_title company department n)
              \<longrightarrow> length candidates < length cv_files)"
proof -
  let ?flags = "counted world self cv_files job_title company department n"
  from evaluate_candidates_Inr[OF assms] obtain out summary where
    sorted: "sort_by_match_score (fst (evaluate_loop world self cv_files job_title company department [] n)) = Inr out"
    and report: "report = JObj
             [(''report_header'', JObj
                 [(''role'', JStr job_title), (''department'', JStr department), (''company'', JStr company),
                  (''location'', JStr location), (''work_mode'', JStr work_mode),
                  (''report_date'', JStr (report_date world)),
                  (''assessment_method'', JStr assessment_method_text)]),
              (''candidates'', JArr out),
              (''overall_summary'', JStr summary),
              (''total_candidates'', JInt (int (length out)))]"
    by blast
  have "length out = length (fst (evaluate_loop world self cv_files job_title company department [] n))"
    using sort_by_match_score_mset[OF sorted] by (metis size_mset)
  then have count: "length out = length (filter id ?flags)"
    by (simp add: evaluate_loop_count)
  have len: "length ?flags = length cv_files" by (rule length_counted)
  have less: "length out < length cv_files" if "False \<in> set ?flags"
  proof -
    from that have "length (filter id ?flags) < length ?flags"
      by (intro length_filter_less[of False]) auto
    with count len show ?thesis by simp
  qed
  from report count len less show ?thesis by simp
qed


section \<open>Sample runs\<close>


lemma sample_texts:
  "extract_text_from_pdf sample_world ''ada.pdf'' = Some ''Ada CV''"
  "extract_text_from_pdf sample_world ''bob.pdf'' = Some ''Bob CV''"
  "extract_text_from_pdf sample_world ''cy.pdf'' = Some ''Cy CV''"
  "extract_text_from_pdf sample_world ''blank.pdf'' = Some '' ''"
  "extract_text_from_pdf sample_world ''empty.pdf'' = Some []"
  "extract_text_from_pdf sample_world ''missing.pdf'' = None"
  by (simp_all add: extract_text_from_pdf_def sample_world_def)

lemma sample_world_fields:
  "json_loads sample_world = sample_loads"
  "path_stem sample_world = takeWhile (\<lambda>c. c \<noteq> CHR ''.'')"
  "report_date sample_world = ''03 November 2026''"
  "timestamp sample_world = ''20261103_120000''"
  by (simp_all add: sample_world_def)

lemma truthy_samples: "truthy ada" "truthy bob" "truthy cy"
  by (simp_all add: ada_def bob_def cy_def)

lemma counted_samples: "\<not> empty_value ada" "\<not> empty_value bob" "\<not> empty_value cy"
  by (simp_all add: empty_value_def ada_def bob_def cy_def)

lemma call_deepseek_api_unfold:
  "call_deepseek_api loads self prompt 3 n =
     (case endpoint n (length (sent n)) of
        RequestFailed \<Rightarrow>
          retry_loop loads (evaluation_request self prompt) 3 1 None
            (n\<lparr>sent := sent n @ [evaluation_request self prompt]\<rparr>)
      | BodyNotJSON \<Rightarrow>
          retry_loop loads (evaluation_request self prompt) 3 1 None
            (n\<lparr>sent := sent n @ [evaluation_request self prompt]\<rparr>)
      | Body result \<Rightarrow>
          (case message_content result of
             Inl e \<Rightarrow> (Inl e, n\<lparr>sent := sent n @ [evaluation_request self prompt]\<rparr>)
           | Inr (JStr c) \<Rightarrow>
               (case loads (clean_content c) of
                  Some v \<Rightarrow> (Inr v, n\<lparr>sent := sent n @ [evaluation_request self prompt]\<rparr>)
                | None \<Rightarrow>
                    retry_loop loads (evaluation_request self prompt) 3 1 (Some (clean_content c))
                      (n\<lparr>sent := sent n @ [evaluation_request self prompt]\<rparr>))
           | Inr other \<Rightarrow>
               (Inl AttributeError, n\<lparr>sent := sent n @ [evaluation_request self prompt]\<rparr>)))"
  unfolding call_deepseek_api_def
  by (subst retry_loop.simps) (simp add: post_def Let_def split: http_outcome.splits sum.splits json.splits option.splits)

lemmas sample_run =
  evaluate_candidates_def call_deepseek_api_unfold sample_texts sample_world_fields truthy_samples
  counted_samples
  answering_def message_content_chat_body clean_content_ada clean_content_bob clean_content_cy
  sample_loads_values sort_by_match_score_def ada_fields bob_fields cy_fields
  generate_overall_summary_def candidate_line_def field_str_def post_def summary_of_outcome_def
  fallback_sentence_def only_candidate_sentence_def dec_int_88 dec_int_93



theorem total_candidates_counts_successes_witness:
  "\<exists>report.
     fst (evaluate_candidates sample_world sample_evaluator [''ada.pdf'', ''empty.pdf'', ''bob.pdf'']
            ''Engineer'' ''Acme'' ''Department'' ''Cairo'' [] (answering [ada_text, bob_text]))
       = Inr report
   \<and> getitem report ''candidates'' = Inr (JArr [ada, bob])
   \<and> getitem report ''total_candidates'' = Inr (JInt 2)
   \<and> counted sample_world sample_evaluator [''ada.pdf'', ''empty.pdf'', ''bob.pdf'']
        ''Engineer'' ''Acme'' ''Department'' (answering [ada_text, bob_text]) = [True, False, True]"
proof -
  let ?run = "evaluate_candidates sample_world sample_evaluator [''ada.pdf'', ''empty.pdf'', ''bob.pdf'']
            ''Engineer'' ''Acme'' ''Department'' ''Cairo'' [] (answering [ada_text, bob_text])"
  let ?report = "JObj
     [(''report_header'', JObj
         [(''role'', JStr ''Engineer''), (''department'', JStr ''Department''),
          (''company'', JStr ''Acme''), (''location'', JStr ''Cairo''), (''work_mode'', JStr []),
          (''report_date'', JStr ''03 November 2026''),
          (''assessment_method'', JStr assessment_method_text)]),
      (''candidates'', JArr [ada, bob]),
      (''overall_summary'', JStr ''Ada ranks highest with a score of 88/100, demonstrating the strongest alignment with role requirements across all evaluation criteria.''),
      (''total_candidates'', JInt 2)]"
  have r: "fst ?run = Inr ?report"
    by (simp add: sample_run)
  then have run: "?run = (Inr ?report, snd ?run)"
    by (metis prod.collapse)
  have flags: "counted sample_world sample_evaluator [''ada.pdf'', ''empty.pdf'', ''bob.pdf'']
        ''Engineer'' ''Acme'' ''Department'' (answering [ada_text, bob_text]) = [True, False, True]"
    by (simp add: sample_run)
  from total_candidates_counts_successes[OF run] obtain candidates where
    "getitem ?report ''candidates'' = Inr (JArr candidates)"
    "getitem ?report ''total_candidates'' = Inr (JInt (int (length candidates)))"
    by blast
  then have "getitem ?report ''candidates'' = Inr (JArr [ada, bob])"
    "getitem ?report ''total_candidates'' = Inr (JInt 2)"
    by simp_all
  with r flags show ?thesis by blast
qed

text \<open>The claim as written fails: the one file of this run yields a blank only, which
  the specification calls a failed extraction, and the report counts one candidate.\<close>

theorem blank_file_is_counted:
  "length (filter (extraction_succeeded sample_world) [''blank.pdf'']) = 0
   \<and> fst (evaluate_candidates sample_world sample_evaluator [''blank.pdf''] ''Engineer'' ''Acme''
            ''Department'' ''Cairo'' [] (answering [ada_text]))
       = Inr (JObj
           [(''report_header'', JObj
               [(''role'', JStr ''Engineer''), (''department'', JStr ''Department''),
                (''company'', JStr ''Acme''), (''location'', JStr ''Cairo''), (''work_mode'', JStr []),
                (''report_date'', JStr ''03 November 2026''),
                (''assessment_method'', JStr assessment_method_text)]),
            (''candidates'', JArr [ada]),
            (''overall_summary'', JStr ''Ada is the only candidate evaluated with a match score of 88/100.''),
            (''total_candidates'', JInt 1)])"
proof -
  have "\<not> extraction_succeeded sample_world ''blank.pdf''"
    by (simp add: extraction_succeeded_def sample_texts strip_def py_isspace_def)
  then have "length (filter (extraction_succeeded sample_world) [''blank.pdf'']) = 0"
    by simp
  moreover have "fst (evaluate_candidates sample_world sample_evaluator [''blank.pdf''] ''Engineer''
            ''Acme'' ''Department'' ''Cairo'' [] (answering [ada_text]))
       = Inr (JObj
           [(''report_header'', JObj
               [(''role'', JStr ''Engineer''), (''department'', JStr ''Department''),
                (''company'', JStr ''Acme''), (''location'', JStr ''Cairo''), (''work_mode'', JStr []),
                (''report_date'', JStr ''03 November 2026''),
                (''assessment_method'', JStr assessment_method_text)]),
            (''candidates'', JArr [ada]),
            (''overall_summary'', JStr ''Ada is the only candidate evaluated with a match score of 88/100.''),
            (''total_candidates'', JInt 1)])"
    by (simp add: sample_run)
  ultimately show ?thesis by simp
qed

section \<open>Skipped candidates\<close>

lemma evaluate_loop_append:
  "evaluate_loop world self (xs @ ys) jt co d acc n =
     (case evaluate_loop world self xs jt co d acc n of
        (acc', n1) \<Rightarrow> evaluate_loop world self ys jt co d acc' n1)"
  by (induction xs arbitrary: acc n) (auto split: option.splits prod.splits sum.splits)

text \<open>
  C5, as the code has it. A CV file whose extraction fails or yields the empty string is
  skipped: its turn of the loop leaves the evaluations and the network as they were (no
  prompt is sent), and the whole run is the run without that file, so the candidate is
  not in the report. Text that is not empty is evaluated, white space or not.
\<close>

theorem empty_text_is_skipped:
  assumes "extract_text_from_pdf world cv_file = None \<or> extract_text_from_pdf world cv_file = Some []"
  shows "evaluate_loop world self (cv_file # rest) job_title company department evaluations n
           = evaluate_loop world self rest job_title company department evaluations n
       \<and> evaluate_candidates world self (before @ cv_file # rest) job_title company department
             location work_mode n
           = evaluate_candidates world self (before @ rest) job_title company department
               location work_mode n"
proof -
  have step: "evaluate_loop world self (cv_file # rest) job_title company department acc k
           = evaluate_loop world self rest job_title company department acc k" for acc k
    using assms by auto
  have "evaluate_loop world self (before @ cv_file # rest) job_title company department [] n
          = evaluate_loop world self (before @ rest) job_title company department [] n"
    by (simp only: evaluate_loop_append step)
  then show ?thesis
    using step by (simp only: evaluate_candidates_def)
qed

theorem empty_text_is_skipped_witness:
  "evaluate_loop sample_world sample_evaluator [''empty.pdf'', ''bob.pdf''] ''Engineer'' ''Acme''
       ''Department'' [ada] (answering [bob_text])
     = evaluate_loop sample_world sample_evaluator [''bob.pdf''] ''Engineer'' ''Acme''
         ''Department'' [ada] (answering [bob_text])
   \<and> evaluate_candidates sample_world sample_evaluator ([''ada.pdf''] @ [''empty.pdf'', ''bob.pdf''])
       ''Engineer'' ''Acme'' ''Department'' ''Cairo'' [] (answering [ada_text, bob_text])
     = evaluate_candidates sample_world sample_evaluator ([''ada.pdf''] @ [''bob.pdf''])
       ''Engineer'' ''Acme'' ''Department'' ''Cairo'' [] (answering [ada_text, bob_text])"
proof -
  have e: "extract_text_from_pdf sample_world ''empty.pdf'' = None
         \<or> extract_text_from_pdf sample_world ''empty.pdf'' = Some []"
    by (simp add: sample_texts)
  from empty_text_is_skipped[OF e, of sample_evaluator "[''bob.pdf'']" "''Engineer''" "''Acme''"
         "''Department''" "[ada]" "answering [bob_text]"]
       empty_text_is_skipped[OF e, of sample_evaluator "[''bob.pdf'']" "''Engineer''" "''Acme''"
         "''Department''" "[]" "answering [ada_text, bob_text]" "[''ada.pdf'']" "''Cairo''" "[]"]
  show ?thesis by blast
qed

text \<open>The claim as written fails for white space: a file whose text is one blank gets a
  prompt, a request and a place in the report.\<close>

theorem blank_text_is_evaluated:
  "extract_text_from_pdf sample_world ''blank.pdf'' = Some '' ''
   \<and> strip '' '' = []
   \<and> fst (evaluate_loop sample_world sample_evaluator [''blank.pdf''] ''Engineer'' ''Acme''
            ''Department'' [] (answering [ada_text])) = [ada]
   \<and> map user_content
        (sent (snd (evaluate_loop sample_world sample_evaluator [''blank.pdf''] ''Engineer'' ''Acme''
                      ''Department'' [] (answering [ada_text]))))
       = [create_evaluation_prompt sample_evaluator '' '' ''blank'' ''Engineer'' ''Acme'' ''Department'']
   \<and> fst (evaluate_candidates sample_world sample_evaluator [''blank.pdf''] ''Engineer'' ''Acme''
            ''Department'' ''Cairo'' [] (answering [ada_text]))
       = Inr (JObj
           [(''report_header'', JObj
               [(''role'', JStr ''Engineer''), (''department'', JStr ''Department''),
                (''company'', JStr ''Acme''), (''location'', JStr ''Cairo''), (''work_mode'', JStr []),
                (''report_date'', JStr ''03 November 2026''),
                (''assessment_method'', JStr assessment_method_text)]),
            (''candidates'', JArr [ada]),
            (''overall_summary'', JStr ''Ada is the only candidate evaluated with a match score of 88/100.''),
            (''total_candidates'', JInt 1)])"
  by (simp add: sample_run strip_def py_isspace_def evaluation_request_def replace_char_def)

text \<open>
  C3. In a report that \<^verbatim>\<open>evaluate_candidates\<close> returns, the candidates are the evaluations
  of the run, each once, ordered by descending score, and the evaluations with one and
  the same score stand in the order in which the loop recorded them.
\<close>

theorem candidates_sorted_stable:
  assumes "evaluate_candidates world self cv_files job_title company department location work_mode n
             = (Inr report, n')"
  shows "\<exists>candidates.
           getitem report ''candidates'' = Inr (JArr candidates)
         \<and> sorted_wrt score_ge candidates
         \<and> mset candidates
             = mset (fst (evaluate_loop world self cv_files job_title company department [] n))
         \<and> (\<forall>k. filter (\<lambda>e. match_score e = Some k) candidates
                = filter (\<lambda>e. match_score e = Some k)
                    (fst (evaluate_loop world self cv_files job_title company department [] n)))"
proof -
  from evaluate_candidates_Inr[OF assms] obtain out summary where
    sorted: "sort_by_match_score (fst (evaluate_loop world self cv_files job_title company department [] n)) = Inr out"
    and report: "report = JObj
             [(''report_header'', JObj
                 [(''role'', JStr job_title), (''department'', JStr department), (''company'', JStr company),
                  (''location'', JStr location), (''work_mode'', JStr work_mode),
                  (''report_date'', JStr (report_date world)),
                  (''assessment_method'', JStr assessment_method_text)]),
              (''candidates'', JArr out),
              (''overall_summary'', JStr summary),
              (''total_candidates'', JInt (int (length out)))]"
    by blast
  from report have "getitem report ''candidates'' = Inr (JArr out)" by simp
  with sort_by_match_score_sorted[OF sorted] sort_by_match_score_mset[OF sorted]
       sort_by_match_score_stable[OF sorted]
  show ?thesis by blast
qed

theorem candidates_sorted_stable_witness:
  "\<exists>report.
     fst (evaluate_candidates sample_world sample_evaluator [''ada.pdf'', ''bob.pdf'', ''cy.pdf'']
            ''Engineer'' ''Acme'' ''Department'' ''Cairo'' [] (answering [ada_text, bob_text, cy_text]))
       = Inr report
   \<and> fst (evaluate_loop sample_world sample_evaluator [''ada.pdf'', ''bob.pdf'', ''cy.pdf'']
            ''Engineer'' ''Acme'' ''Department'' [] (answering [ada_text, bob_text, cy_text]))
       = [ada, bob, cy]
   \<and> getitem report ''candidates'' = Inr (JArr [cy, ada, bob])
   \<and> sorted_wrt score_ge [cy, ada, bob]
   \<and> filter (\<lambda>e. match_score e = Some 88) [cy, ada, bob] = [ada, bob]"
proof -
  let ?run = "evaluate_candidates sample_world sample_evaluator [''ada.pdf'', ''bob.pdf'', ''cy.pdf'']
            ''Engineer'' ''Acme'' ''Department'' ''Cairo'' [] (answering [ada_text, bob_text, cy_text])"
  let ?report = "JObj
     [(''report_header'', JObj
         [(''role'', JStr ''Engineer''), (''department'', JStr ''Department''),
          (''company'', JStr ''Acme''), (''location'', JStr ''Cairo''), (''work_mode'', JStr []),
          (''report_date'', JStr ''03 November 2026''),
          (''assessment_method'', JStr assessment_method_text)]),
      (''candidates'', JArr [cy, ada, bob]),
      (''overall_summary'', JStr ''Cy ranks highest with a score of 93/100, demonstrating the strongest alignment with role requirements across all evaluation criteria.''),
      (''total_candidates'', JInt 3)]"
  have r: "fst ?run = Inr ?report"
    by (simp add: sample_run)
  then have run: "?run = (Inr ?report, snd ?run)"
    by (metis prod.collapse)
  have loop: "fst (evaluate_loop sample_world sample_evaluator [''ada.pdf'', ''bob.pdf'', ''cy.pdf'']
            ''Engineer'' ''Acme'' ''Department'' [] (answering [ada_text, bob_text, cy_text]))
       = [ada, bob, cy]"
    by (simp add: sample_run)
  from candidates_sorted_stable[OF run] obtain candidates where
    c: "getitem ?report ''candidates'' = Inr (JArr candidates)"
    and s: "sorted_wrt score_ge candidates"
    and f: "\<forall>k. filter (\<lambda>e. match_score e = Some k) candidates
                = filter (\<lambda>e. match_score e = Some k)
                    (fst (evaluate_loop sample_world sample_evaluator [''ada.pdf'', ''bob.pdf'', ''cy.pdf'']
            ''Engineer'' ''Acme'' ''Department'' [] (answering [ada_text, bob_text, cy_text])))"
    by blast
  from c have cs: "candidates = [cy, ada, bob]" by simp
  have "filter (\<lambda>e. match_score e = Some 88) [ada, bob, cy] = [ada, bob]"
    by (simp add: match_score_def ada_fields bob_fields cy_fields)
  with f cs loop have "filter (\<lambda>e. match_score e = Some 88) [cy, ada, bob] = [ada, bob]"
    by simp
  with r loop c s cs show ?thesis by blast
qed



section \<open>The fallback summary\<close>

lemma is_strE: "is_str x \<Longrightarrow> \<exists>s. x = Inr (JStr s)"
  by (cases x rule: is_str.cases) simp_all

lemma is_intE: "is_int x \<Longrightarrow> \<exists>i. x = Inr (JInt i)"
  by (cases x rule: is_int.cases) simp_all

lemma evaluation_shapedE:
  assumes "evaluation_shaped e"
  obtains name score rating where
    "getitem e ''candidate_name'' = Inr (JStr name)"
    "getitem e ''match_score'' = Inr (JInt score)"
    "getitem e ''rating_summary'' = Inr (JStr rating)"
  using assms is_strE[of "getitem e ''candidate_name''"] is_intE[of "getitem e ''match_score''"]
        is_strE[of "getitem e ''rating_summary''"]
  unfolding evaluation_shaped_def by blast

lemma shaped_match_score:
  "evaluation_shaped e \<Longrightarrow> \<exists>s. match_score e = Some s \<and> getitem e ''match_score'' = Inr (JInt s)"
  by (erule evaluation_shapedE) (simp add: match_score_def)

lemma shaped_sort_keys:
  "\<forall>e\<in>set evs. evaluation_shaped e \<Longrightarrow>
   \<exists>keys ks. sort_keys evs = Inr keys \<and> those (map numeric_key keys) = Some ks"
proof (induction evs)
  case Nil
  then show ?case by simp
next
  case (Cons e evs)
  then obtain keys ks where "sort_keys evs = Inr keys" "those (map numeric_key keys) = Some ks"
    by auto
  moreover from Cons.prems obtain s where "getitem e ''match_score'' = Inr (JInt s)"
    using shaped_match_score[of e] by auto
  ultimately show ?case by simp
qed

lemma shaped_sort:
  "\<forall>e\<in>set evs. evaluation_shaped e \<Longrightarrow> \<exists>out. sort_by_match_score evs = Inr out"
  using shaped_sort_keys[of evs] by (auto simp: sort_by_match_score_def)

lemma shaped_candidate_line: "evaluation_shaped e \<Longrightarrow> \<exists>l. candidate_line e = Inr l"
  by (erule evaluation_shapedE) (simp add: candidate_line_def field_str_def)

lemma shaped_candidate_lines:
  "\<forall>e\<in>set evs. evaluation_shaped e \<Longrightarrow> \<exists>ls. candidate_lines evs = Inr ls"
proof (induction evs)
  case Nil
  then show ?case by simp
next
  case (Cons e evs)
  then obtain ls where "candidate_lines evs = Inr ls" by auto
  moreover from Cons.prems obtain l where "candidate_line e = Inr l"
    using shaped_candidate_line[of e] by auto
  ultimately show ?case by simp
qed

text \<open>The summary step on two or more well-formed evaluations whose request fails.\<close>

lemma generate_overall_summary_fallback:
  assumes shaped: "\<forall>e\<in>set (leader # second # others). evaluation_shaped e"
      and fails: "summary_of_outcome (endpoint n (length (sent n))) = None"
      and name: "getitem leader ''candidate_name'' = Inr (JStr name)"
      and score: "getitem leader ''match_score'' = Inr (JInt score)"
  shows "\<exists>req. generate_overall_summary self (leader # second # others) job_title n =
           (Inr (name @ '' ranks highest with a score of '' @ dec_int score
                 @ ''/100, demonstrating the strongest alignment with role requirements across all evaluation criteria.''),
            n\<lparr>sent := sent n @ [req]\<rparr>)"
proof -
  from shaped_candidate_lines[OF shaped] obtain ls where
    ls: "candidate_lines (leader # second # others) = Inr ls" by blast
  have fb: "fallback_sentence leader =
          Inr (name @ '' ranks highest with a score of '' @ dec_int score
                 @ ''/100, demonstrating the strongest alignment with role requirements across all evaluation criteria.'')"
    by (simp add: fallback_sentence_def field_str_def name score)
  show ?thesis
    unfolding generate_overall_summary_def
    by (simp only: list.case ls sum.case post_def prod.case fails option.case fb) blast
qed


text \<open>
  C7. When the run has recorded two or more evaluations (objects with a name, an integer
  score and a rating summary) and the request for the overall summary fails in any way,
  \<^verbatim>\<open>generate_overall_summary\<close> returns the fallback sentence with the name and the score
  of the first candidate of the sorted list, whose score no other evaluation exceeds,
  and \<^verbatim>\<open>evaluate_candidates\<close> returns its report with that sentence as the overall
  summary.
\<close>

theorem summary_failure_falls_back:
  assumes loop: "evaluate_loop world self cv_files job_title company department [] n = (evaluations, n1)"
      and two: "2 \<le> length evaluations"
      and shaped: "\<forall>e\<in>set evaluations. evaluation_shaped e"
      and fails: "summary_of_outcome (endpoint n1 (length (sent n1))) = None"
  shows "\<exists>report n2 leader others name score.
           evaluate_candidates world self cv_files job_title company department location work_mode n
             = (Inr report, n2)
         \<and> getitem report ''candidates'' = Inr (JArr (leader # others))
         \<and> getitem leader ''candidate_name'' = Inr (JStr name)
         \<and> getitem leader ''match_score'' = Inr (JInt score)
         \<and> (\<forall>e\<in>set evaluations. \<exists>s. match_score e = Some s \<and> s \<le> score)
         \<and> generate_overall_summary self (leader # others) job_title n1
             = (Inr (name @ '' ranks highest with a score of '' @ dec_int score
                     @ ''/100, demonstrating the strongest alignment with role requirements across all evaluation criteria.''),
                n2)
         \<and> getitem report ''overall_summary''
             = Inr (JStr (name @ '' ranks highest with a score of '' @ dec_int score
                     @ ''/100, demonstrating the strongest alignment with role requirements across all evaluation criteria.''))
         \<and> length (sent n2) = Suc (length (sent n1))"
proof -
  from shaped_sort[OF shaped] obtain out where out: "sort_by_match_score evaluations = Inr out"
    by blast
  have ms: "mset out = mset evaluations" by (rule sort_by_match_score_mset[OF out])
  then have set_eq: "set out = set evaluations" by (metis set_mset_mset)
  from ms have "length out = length evaluations" by (metis size_mset)
  with two obtain leader second others where cons: "out = leader # second # others"
    by (cases out; cases "tl out") auto
  from shaped set_eq have shaped_out: "\<forall>e\<in>set (leader # second # others). evaluation_shaped e"
    by (simp add: cons)
  then have "evaluation_shaped leader" by simp
  then obtain name score rating where
    name: "getitem leader ''candidate_name'' = Inr (JStr name)"
    and score: "getitem leader ''match_score'' = Inr (JInt score)"
    by (rule evaluation_shapedE)
  let ?sentence = "name @ '' ranks highest with a score of '' @ dec_int score
                     @ ''/100, demonstrating the strongest alignment with role requirements across all evaluation criteria.''"
  from generate_overall_summary_fallback[OF shaped_out fails name score] obtain req where
    summary: "generate_overall_summary self (leader # second # others) job_title n1 =
                (Inr ?sentence, n1\<lparr>sent := sent n1 @ [req]\<rparr>)"
    by blast
  let ?n2 = "n1\<lparr>sent := sent n1 @ [req]\<rparr>"
  let ?report = "JObj
             [(''report_header'', JObj
                 [(''role'', JStr job_title), (''department'', JStr department), (''company'', JStr company),
                  (''location'', JStr location), (''work_mode'', JStr work_mode),
                  (''report_date'', JStr (report_date world)),
                  (''assessment_method'', JStr assessment_method_text)]),
              (''candidates'', JArr (leader # second # others)),
              (''overall_summary'', JStr ?sentence),
              (''total_candidates'', JInt (int (length (leader # second # others))))]"
  have run: "evaluate_candidates world self cv_files job_title company department location work_mode n
             = (Inr ?report, ?n2)"
    unfolding evaluate_candidates_def
    by (simp only: loop prod.case out sum.case cons summary)
  have top_score: "match_score leader = Some score"
    by (simp add: match_score_def score)
  have best: "\<exists>s. match_score e = Some s \<and> s \<le> score" if "e \<in> set evaluations" for e
  proof -
    from that set_eq cons have "e = leader \<or> e \<in> set (second # others)" by auto
    then show ?thesis
    proof
      assume "e = leader"
      with top_score show ?thesis by simp
    next
      assume "e \<in> set (second # others)"
      moreover from sort_by_match_score_sorted[OF out] cons
      have "\<forall>x\<in>set (second # others). score_ge leader x" by simp
      ultimately have "score_ge leader e" by blast
      with top_score show ?thesis
        by (auto simp: score_ge_def split: option.splits)
    qed
  qed
  have "getitem ?report ''candidates'' = Inr (JArr (leader # second # others))"
       "getitem ?report ''overall_summary'' = Inr (JStr ?sentence)"
       "length (sent ?n2) = Suc (length (sent n1))"
    by simp_all
  with run name score best summary show ?thesis by blast
qed

theorem summary_failure_falls_back_witness:
  "\<exists>report.
     fst (evaluate_candidates sample_world sample_evaluator [''ada.pdf'', ''cy.pdf''] ''Engineer''
            ''Acme'' ''Department'' ''Cairo'' [] (answering [ada_text, cy_text])) = Inr report
   \<and> getitem report ''candidates'' = Inr (JArr [cy, ada])
   \<and> getitem report ''overall_summary''
       = Inr (JStr ''Cy ranks highest with a score of 93/100, demonstrating the strongest alignment with role requirements across all evaluation criteria.'')"
proof -
  let ?loop = "evaluate_loop sample_world sample_evaluator [''ada.pdf'', ''cy.pdf''] ''Engineer''
            ''Acme'' ''Department'' [] (answering [ada_text, cy_text])"
  let ?run = "evaluate_candidates sample_world sample_evaluator [''ada.pdf'', ''cy.pdf''] ''Engineer''
            ''Acme'' ''Department'' ''Cairo'' [] (answering [ada_text, cy_text])"
  have evs: "fst ?loop = [ada, cy]" by (simp add: sample_run)
  have loop: "?loop = (fst ?loop, snd ?loop)" by simp
  have two: "2 \<le> length (fst ?loop)" unfolding evs by simp
  have shaped: "\<forall>e\<in>set (fst ?loop). evaluation_shaped e"
    unfolding evs by (simp add: evaluation_shaped_def ada_fields cy_fields)
  have fails: "summary_of_outcome (endpoint (snd ?loop) (length (sent (snd ?loop)))) = None"
    by (simp add: sample_run)
  from summary_failure_falls_back[OF loop two shaped fails, of "''Cairo''" "[]"]
  obtain report n2 leader others name score where
    run: "?run = (Inr report, n2)"
    and c: "getitem report ''candidates'' = Inr (JArr (leader # others))"
    and nm: "getitem leader ''candidate_name'' = Inr (JStr name)"
    and sc: "getitem leader ''match_score'' = Inr (JInt score)"
    and s: "getitem report ''overall_summary''
             = Inr (JStr (name @ '' ranks highest with a score of '' @ dec_int score
                     @ ''/100, demonstrating the strongest alignment with role requirements across all evaluation criteria.''))"
    by blast
  have "fst ?run = Inr (JObj
     [(''report_header'', JObj
         [(''role'', JStr ''Engineer''), (''department'', JStr ''Department''),
          (''company'', JStr ''Acme''), (''location'', JStr ''Cairo''), (''work_mode'', JStr []),
          (''report_date'', JStr ''03 November 2026''),
          (''assessment_method'', JStr assessment_method_text)]),
      (''candidates'', JArr [cy, ada]),
      (''overall_summary'', JStr ''Cy ranks highest with a score of 93/100, demonstrating the strongest alignment with role requirements across all evaluation criteria.''),
      (''total_candidates'', JInt 2)])"
    by (simp add: sample_run)
  with run have report: "report = JObj
     [(''report_header'', JObj
         [(''role'', JStr ''Engineer''), (''department'', JStr ''Department''),
          (''company'', JStr ''Acme''), (''location'', JStr ''Cairo''), (''work_mode'', JStr []),
          (''report_date'', JStr ''03 November 2026''),
          (''assessment_method'', JStr assessment_method_text)]),
      (''candidates'', JArr [cy, ada]),
      (''overall_summary'', JStr ''Cy ranks highest with a score of 93/100, demonstrating the strongest alignment with role requirements across all evaluation criteria.''),
      (''total_candidates'', JInt 2)]"
    by simp
  from c report have "leader = cy" "others = [ada]" by simp_all
  with nm sc have "name = ''Cy''" "score = 93" by (simp_all add: cy_fields)
  with s run c \<open>leader = cy\<close> \<open>others = [ada]\<close> show ?thesis
    by (auto simp: dec_int_93)
qed



section \<open>The persisted report\<close>

lemma number_candidates_Inr:
  "number_candidates pdf idx cs = Inr out \<Longrightarrow>
   length out = length cs
   \<and> (\<forall>i<length cs. setitem (cs ! i) ''candidate_number'' (JInt (int (idx + i))) = Inr (out ! i))"
proof (induction cs arbitrary: idx out)
  case Nil
  then show ?case by simp
next
  case (Cons c cs)
  from Cons.prems obtain c' out' where c': "setitem c ''candidate_number'' (JInt (int idx)) = Inr c'"
    and rest: "number_candidates pdf (Suc idx) cs = Inr out'" and out: "out = c' # out'"
    by (auto split: sum.splits option.splits)
  from Cons.IH[OF rest] c' out show ?case
    by (auto simp: nth_Cons algebra_simps split: nat.splits)
qed

lemma generate_pdf_report:
  assumes "generate_pdf pdf
             (JObj [(''report_header'', header), (''candidates'', JArr candidates),
                    (''overall_summary'', summary), (''total_candidates'', tc)]) output_file
           = Inr (report_data', pdf_path)"
  shows "\<exists>numbered. number_candidates pdf 1 candidates = Inr numbered
           \<and> report_data' = JObj [(''report_header'', header), (''candidates'', JArr numbered),
                                   (''overall_summary'', summary), (''total_candidates'', tc)]"
  using assms
  by (auto simp: generate_pdf_def Let_def split: option.splits sum.splits if_splits)

text \<open>
  C4, as the code has it. When the application's \<^verbatim>\<open>evaluate_candidates\<close> returns, the file
  \<^verbatim>\<open>evaluation_report.json\<close> holds the report of the evaluator as it was returned: the keys
  \<^verbatim>\<open>report_header\<close> (with role, department, company, location, work_mode, report_date,
  assessment_method), \<^verbatim>\<open>candidates\<close>, \<^verbatim>\<open>overall_summary\<close> and \<^verbatim>\<open>total_candidates\<close>, the
  candidates being the recorded evaluations themselves. The numbers are written
  afterwards, by \<^verbatim>\<open>generate_pdf\<close>, into the report kept in memory: there the candidate at
  position i (from 0) has \<^verbatim>\<open>candidate_number\<close> i + 1.
\<close>

theorem persisted_report:
  assumes "TalentMatcherApp_evaluate_candidates world pdf form self m = (Inr report_file, self', m')"
  shows "\<exists>evaluator header candidates summary numbered.
           report_file = ''evaluation_report.json''
         \<and> disk m' report_file
             = Some (JObj [(''report_header'', JObj header), (''candidates'', JArr candidates),
                           (''overall_summary'', JStr summary),
                           (''total_candidates'', JInt (int (length candidates)))])
         \<and> map fst header = [''role'', ''department'', ''company'', ''location'', ''work_mode'',
                               ''report_date'', ''assessment_method'']
         \<and> mset candidates
             = mset (fst (evaluate_loop world evaluator (form_resume_files form) (form_job_title form)
                            (form_company form) (form_department form) [] (network m)))
         \<and> latest_report_data self'
             = Some (JObj [(''report_header'', JObj header), (''candidates'', JArr numbered),
                           (''overall_summary'', JStr summary),
                           (''total_candidates'', JInt (int (length candidates)))])
         \<and> length numbered = length candidates
         \<and> (\<forall>i<length candidates.
               setitem (candidates ! i) ''candidate_number'' (JInt (int i + 1)) = Inr (numbered ! i))"
proof -
  let ?key = "strip (form_api_key form)"
  let ?jd = "case form_job_description_file form of
               None \<Rightarrow> None
             | Some f \<Rightarrow> if f = [] then None else text_files world f"
  let ?ev = "CVEvaluator_init ?key ?jd"
  let ?run = "evaluate_candidates world ?ev (form_resume_files form) (form_job_title form)
                (form_company form) (form_department form) (form_location form) [] (network m)"
  from assms have key: "?key \<noteq> []"
    by (auto simp: TalentMatcherApp_evaluate_candidates_def Let_def split: if_splits)
  obtain r n1 where run: "?run = (r, n1)" by (cases ?run) blast
  from assms key run obtain report where r: "r = Inr report"
    by (cases r) (auto simp: TalentMatcherApp_evaluate_candidates_def Let_def)
  from assms key run r obtain report' pdf_path where
    pdf: "generate_pdf pdf report (''evaluation_report_'' @ timestamp world @ ''.pdf'')
            = Inr (report', pdf_path)"
    and fname: "report_file = ''evaluation_report.json''"
    and dsk: "disk m' = (disk m)(''evaluation_report.json'' \<mapsto> report)"
    and mem: "latest_report_data self' = Some report'"
    by (auto simp: TalentMatcherApp_evaluate_candidates_def Let_def save_json_report_def
             split: sum.splits prod.splits)
  from run r have "?run = (Inr report, n1)" by simp
  from evaluate_candidates_Inr[OF this] obtain out summary where
    sorted: "sort_by_match_score (fst (evaluate_loop world ?ev (form_resume_files form)
               (form_job_title form) (form_company form) (form_department form) [] (network m)))
             = Inr out"
    and report: "report = JObj
             [(''report_header'', JObj
                 [(''role'', JStr (form_job_title form)), (''department'', JStr (form_department form)),
                  (''company'', JStr (form_company form)),
                  (''location'', JStr (form_location form)), (''work_mode'', JStr []),
                  (''report_date'', JStr (report_date world)),
                  (''assessment_method'', JStr assessment_method_text)]),
              (''candidates'', JArr out),
              (''overall_summary'', JStr summary),
              (''total_candidates'', JInt (int (length out)))]"
    by blast
  let ?header = "[(''role'', JStr (form_job_title form)), (''department'', JStr (form_department form)),
                  (''company'', JStr (form_company form)),
                  (''location'', JStr (form_location form)), (''work_mode'', JStr []),
                  (''report_date'', JStr (report_date world)),
                  (''assessment_method'', JStr assessment_method_text)]"
  from pdf report obtain numbered where
    num: "number_candidates pdf 1 out = Inr numbered"
    and report': "report' = JObj [(''report_header'', JObj ?header), (''candidates'', JArr numbered),
                                   (''overall_summary'', JStr summary),
                                   (''total_candidates'', JInt (int (length out)))]"
    using generate_pdf_report[of pdf "JObj ?header" out "JStr summary" "JInt (int (length out))"]
    by blast
  from number_candidates_Inr[OF num] have
    len: "length numbered = length out"
    and each: "\<forall>i<length out. setitem (out ! i) ''candidate_number'' (JInt (int i + 1)) = Inr (numbered ! i)"
    by (simp_all add: add.commute)
  have d: "disk m' report_file = Some (JObj [(''report_header'', JObj ?header), (''candidates'', JArr out),
                           (''overall_summary'', JStr summary),
                           (''total_candidates'', JInt (int (length out)))])"
    by (simp add: dsk fname report)
  have h: "map fst ?header = [''role'', ''department'', ''company'', ''location'', ''work_mode'',
                               ''report_date'', ''assessment_method'']"
    by simp
  have ms: "mset out = mset (fst (evaluate_loop world ?ev (form_resume_files form)
               (form_job_title form) (form_company form) (form_department form) [] (network m)))"
    by (rule sort_by_match_score_mset[OF sorted])
  have mem': "latest_report_data self'
             = Some (JObj [(''report_header'', JObj ?header), (''candidates'', JArr numbered),
                           (''overall_summary'', JStr summary),
                           (''total_candidates'', JInt (int (length out)))])"
    using mem report' by simp
  show ?thesis
    apply (rule exI[of _ ?ev])
    apply (rule exI[of _ ?header])
    apply (rule exI[of _ out])
    apply (rule exI[of _ summary])
    apply (rule exI[of _ numbered])
    apply (intro conjI)
          apply (rule fname)
         apply (rule d)
        apply (rule h)
       apply (rule ms)
      apply (rule mem')
     apply (rule len)
    apply (rule each)
    done
qed


lemmas sample_app_run =
  TalentMatcherApp_evaluate_candidates_def sample_form_def sample_machine_def fresh_app_def
  sample_renderer_def CVEvaluator_init_def save_json_report_def generate_pdf_def strip_def
  py_isspace_def sample_report_def ada_def Let_def

theorem persisted_report_witness:
  "fst (TalentMatcherApp_evaluate_candidates sample_world sample_renderer sample_form fresh_app
          sample_machine) = Inr ''evaluation_report.json''
   \<and> (\<exists>numbered.
         latest_report_data
           (fst (snd (TalentMatcherApp_evaluate_candidates sample_world sample_renderer sample_form
                        fresh_app sample_machine)))
           = Some (JObj [(''report_header'', JObj
                            [(''role'', JStr ''Engineer''), (''department'', JStr ''Department''),
                             (''company'', JStr ''Acme''), (''location'', JStr ''Cairo''),
                             (''work_mode'', JStr []), (''report_date'', JStr ''03 November 2026''),
                             (''assessment_method'', JStr assessment_method_text)]),
                         (''candidates'', JArr numbered),
                         (''overall_summary'',
                          JStr ''Ada is the only candidate evaluated with a match score of 88/100.''),
                         (''total_candidates'', JInt 1)])
       \<and> length numbered = 1
       \<and> getitem (numbered ! 0) ''candidate_number'' = Inr (JInt 1))"
proof -
  let ?run = "TalentMatcherApp_evaluate_candidates sample_world sample_renderer sample_form fresh_app
          sample_machine"
  have r: "fst ?run = Inr ''evaluation_report.json''"
    by (simp add: sample_app_run sample_run)
  then have eq: "?run = (Inr ''evaluation_report.json'', fst (snd ?run), snd (snd ?run))"
    by (metis prod.collapse)
  have d: "disk (snd (snd ?run)) ''evaluation_report.json'' = Some sample_report"
    by (simp add: sample_app_run sample_run)
  from persisted_report[OF eq] obtain evaluator header candidates summary numbered where
    p: "disk (snd (snd ?run)) ''evaluation_report.json''
             = Some (JObj [(''report_header'', JObj header), (''candidates'', JArr candidates),
                           (''overall_summary'', JStr summary),
                           (''total_candidates'', JInt (int (length candidates)))])"
    and l: "latest_report_data (fst (snd ?run))
             = Some (JObj [(''report_header'', JObj header), (''candidates'', JArr numbered),
                           (''overall_summary'', JStr summary),
                           (''total_candidates'', JInt (int (length candidates)))])"
    and len: "length numbered = length candidates"
    and each: "\<forall>i<length candidates.
               setitem (candidates ! i) ''candidate_number'' (JInt (int i + 1)) = Inr (numbered ! i)"
    by blast
  from p d have c: "candidates = [ada]"
    and h: "header = [(''role'', JStr ''Engineer''), (''department'', JStr ''Department''),
                             (''company'', JStr ''Acme''), (''location'', JStr ''Cairo''),
                             (''work_mode'', JStr []), (''report_date'', JStr ''03 November 2026''),
                             (''assessment_method'', JStr assessment_method_text)]"
    and s: "summary = ''Ada is the only candidate evaluated with a match score of 88/100.''"
    by (simp_all add: sample_report_def)
  from each c have "setitem ada ''candidate_number'' (JInt 1) = Inr (numbered ! 0)" by simp
  then have "numbered ! 0 = JObj
      [(''candidate_name'', JStr ''Ada''), (''match_score'', JInt 88),
       (''rating_summary'', JStr ''Strong''), (''candidate_number'', JInt 1)]"
    by (simp add: ada_def)
  then have n: "getitem (numbered ! 0) ''candidate_number'' = Inr (JInt 1)"
    by simp
  from l c h s len n have "latest_report_data (fst (snd ?run))
           = Some (JObj [(''report_header'', JObj
                            [(''role'', JStr ''Engineer''), (''department'', JStr ''Department''),
                             (''company'', JStr ''Acme''), (''location'', JStr ''Cairo''),
                             (''work_mode'', JStr []), (''report_date'', JStr ''03 November 2026''),
                             (''assessment_method'', JStr assessment_method_text)]),
                         (''candidates'', JArr numbered),
                         (''overall_summary'',
                          JStr ''Ada is the only candidate evaluated with a match score of 88/100.''),
                         (''total_candidates'', JInt 1)])
       \<and> length numbered = 1
       \<and> getitem (numbered ! 0) ''candidate_number'' = Inr (JInt 1)"
    by simp
  with r show ?thesis by blast
qed

text \<open>The claim as written fails: the document on disk has the evaluation as the client
  returned it, and that has no \<^verbatim>\<open>candidate_number\<close>.\<close>

theorem persisted_candidates_not_numbered:
  "disk (snd (snd (TalentMatcherApp_evaluate_candidates sample_world sample_renderer sample_form
                     fresh_app sample_machine))) ''evaluation_report.json'' = Some sample_report
   \<and> getitem sample_report ''candidates'' = Inr (JArr [ada])
   \<and> getitem ada ''candidate_number'' = Inl KeyError"
proof -
  have "disk (snd (snd (TalentMatcherApp_evaluate_candidates sample_world sample_renderer sample_form
                     fresh_app sample_machine))) ''evaluation_report.json'' = Some sample_report"
    by (simp add: sample_app_run sample_run)
  moreover have "getitem sample_report ''candidates'' = Inr (JArr [ada])"
    by (simp add: sample_report_def)
  moreover have "getitem ada ''candidate_number'' = Inl KeyError"
    by (simp add: ada_def)
  ultimately show ?thesis by simp
qed


end
